theory Spec2Isabelle
  imports Main
begin

section \<open>Strings and numbers of the runtime\<close>

text \<open>
  Strings are ASCII strings. The functions of this section are the few string and number
  operations of the JavaScript runtime that the gateway calls: template-string printing of
  integers, \<open>String.prototype.split\<close>, \<open>join\<close>, \<open>trim\<close>, \<open>includes\<close>, \<open>toUpperCase\<close>,
  \<open>toLowerCase\<close> and the digits of \<open>parseInt(s, 10)\<close>. The numbers the gateway handles
  are integers, \<open>NaN\<close>, \<open>Infinity\<close> and \<open>-Infinity\<close>, with the truthiness, \<open>isNaN\<close>, \<open><\<close> and
  \<open>>=\<close> of the language: a comparison with \<open>NaN\<close> is false.
\<close>

datatype jsnum = NaN | Num int | Infinity | Minus_Infinity

fun truthy_num :: "jsnum \<Rightarrow> bool" where
  "truthy_num NaN = False"
| "truthy_num (Num n) = (n \<noteq> 0)"
| "truthy_num Infinity = True"
| "truthy_num Minus_Infinity = True"

fun isNaN :: "jsnum \<Rightarrow> bool" where
  "isNaN NaN = True"
| "isNaN (Num n) = False"
| "isNaN Infinity = False"
| "isNaN Minus_Infinity = False"

fun less_than :: "jsnum \<Rightarrow> jsnum \<Rightarrow> bool" where
  "less_than NaN b = False"
| "less_than (Num a) NaN = False"
| "less_than (Num a) (Num b) = (a < b)"
| "less_than (Num a) Infinity = True"
| "less_than (Num a) Minus_Infinity = False"
| "less_than Infinity b = False"
| "less_than Minus_Infinity NaN = False"
| "less_than Minus_Infinity (Num b) = True"
| "less_than Minus_Infinity Infinity = True"
| "less_than Minus_Infinity Minus_Infinity = False"

definition greater_or_equal :: "jsnum \<Rightarrow> jsnum \<Rightarrow> bool" where
  "greater_or_equal a b = (\<not> isNaN a \<and> \<not> isNaN b \<and> \<not> less_than a b)"

text \<open>
  An integer is a number exactly when its absolute value is at most 2 to the power 53; a
  time value is one that a \<open>Date\<close> holds when its absolute value is at most 8.64e15
  milliseconds.
\<close>

definition exact_integer :: "int \<Rightarrow> bool" where
  "exact_integer n = (- 9007199254740992 \<le> n \<and> n \<le> 9007199254740992)"

definition valid_time_value :: "int \<Rightarrow> bool" where
  "valid_time_value t = (- 8640000000000000 \<le> t \<and> t \<le> 8640000000000000)"

definition digit_char :: "nat \<Rightarrow> char" where
  "digit_char d = ''0123456789'' ! (d mod 10)"

fun show_nat :: "nat \<Rightarrow> string" where
  "show_nat n = (if n < 10 then [digit_char n] else show_nat (n div 10) @ [digit_char n])"

declare show_nat.simps [simp del]

definition show_int :: "int \<Rightarrow> string" where
  "show_int i = (if i < 0 then CHR ''-'' # show_nat (nat (- i)) else show_nat (nat i))"

fun startsWith :: "string \<Rightarrow> string \<Rightarrow> bool" where
  "startsWith s [] = True"
| "startsWith [] (c # cs) = False"
| "startsWith (x # xs) (c # cs) = (x = c \<and> startsWith xs cs)"

fun includesStr :: "string \<Rightarrow> string \<Rightarrow> bool" where
  "includesStr [] sub = (sub = [])"
| "includesStr (x # xs) sub = (startsWith (x # xs) sub \<or> includesStr xs sub)"

fun split_on :: "char \<Rightarrow> string \<Rightarrow> string list" where
  "split_on c [] = [[]]"
| "split_on c (x # xs) =
     (if x = c then [] # split_on c xs
      else (case split_on c xs of [] \<Rightarrow> [[x]] | p # ps \<Rightarrow> (x # p) # ps))"

fun join :: "string \<Rightarrow> string list \<Rightarrow> string" where
  "join sep [] = []"
| "join sep [s] = s"
| "join sep (s # t # ts) = s @ sep @ join sep (t # ts)"

definition is_space :: "char \<Rightarrow> bool" where
  "is_space c = (c = CHR '' '' \<or> c = CHR 0x09 \<or> c = CHR 0x0A \<or> c = CHR 0x0B
     \<or> c = CHR 0x0C \<or> c = CHR 0x0D)"

definition trim :: "string \<Rightarrow> string" where
  "trim s = rev (dropWhile is_space (rev (dropWhile is_space s)))"

definition upper_char :: "char \<Rightarrow> char" where
  "upper_char c =
     (case map_of (zip ''abcdefghijklmnopqrstuvwxyz'' ''ABCDEFGHIJKLMNOPQRSTUVWXYZ'') c of
        Some u \<Rightarrow> u
      | None \<Rightarrow> c)"

definition lower_char :: "char \<Rightarrow> char" where
  "lower_char c =
     (case map_of (zip ''ABCDEFGHIJKLMNOPQRSTUVWXYZ'' ''abcdefghijklmnopqrstuvwxyz'') c of
        Some l \<Rightarrow> l
      | None \<Rightarrow> c)"

definition toUpperCase :: "string \<Rightarrow> string" where
  "toUpperCase s = map upper_char s"

definition toLowerCase :: "string \<Rightarrow> string" where
  "toLowerCase s = map lower_char s"

definition is_digit :: "char \<Rightarrow> bool" where
  "is_digit c = (c \<in> set ''0123456789'')"

definition digits_value :: "string \<Rightarrow> nat" where
  "digits_value ds = foldl (\<lambda>a c. 10 * a + (of_char c - 48)) (0::nat) ds"


section \<open>Upstream replies, the environment and the state of the process\<close>

text \<open>
  What the code throws: a plain \<open>Error\<close> with its message, the \<open>AxiosError\<close> with which
  an HTTP call is rejected (connection failure, timeout), or the \<open>RangeError\<close> of
  \<open>Date.prototype.toISOString\<close>.
\<close>

datatype error = Error string | AxiosError string | RangeError string

fun message :: "error \<Rightarrow> string" where
  "message (Error m) = m"
| "message (AxiosError m) = m"
| "message (RangeError m) = m"

text \<open>
  The outcome of one HTTP call: the promise is rejected, or it resolves with a status, a
  status text and the response data.
\<close>

datatype 'a reply = Rejected string | Response nat string 'a

text \<open>\<open>ThingsboardAuthResponse\<close> and \<open>ThingsboardTokenPayload\<close>.\<close>

record ThingsboardAuthResponse =
  resp_token :: string
  resp_refreshToken :: string

record ThingsboardTokenPayload =
  token :: string
  refresh_token :: string
  expiresAt :: int

text \<open>
  The payload of a JWT after \<open>JSON.parse\<close>: only its \<open>exp\<close> member is read, a number of
  seconds when present.
\<close>

datatype jwt_payload = Payload (exp_claim: "int option")

text \<open>
  The body of a telemetry response, in the three ways the executor reads it: the mapping from
  key to samples that is returned on status 200, \<open>data?.message\<close> (empty when absent), and
  \<open>JSON.stringify(data)\<close>.
\<close>

record telemetry_data =
  series :: "(string \<times> (int \<times> string) list) list"
  data_message :: string
  data_json :: string

text \<open>\<open>Device\<close> of the device service, and the payload of the device directory.\<close>

record Device =
  deviceUUID :: string
  accessToken :: string
  name :: "string option"

datatype directory_payload =
  Array "Device list"
| With_data directory_payload
| Other

text \<open>
  The request the executor sends upstream: the bearer token, the endpoint and the query
  parameters, absent optional parameters left out.
\<close>

record query_params =
  p_keys :: string
  p_startTs :: string
  p_endTs :: string
  p_interval :: "jsnum option"
  p_agg :: "string option"
  p_orderBy :: "string option"
  p_limit :: "jsnum option"
  p_useStrictDataTypes :: "bool option"

text \<open>
  Everything observable that the services do, in the order they do it: the HTTP requests they
  issue, the executor's back-off, and the executor's call of \<open>authService.refreshToken()\<close>.
\<close>

datatype event =
  Post_login
| Post_refresh string
| Get_timeseries string string query_params
| Get_devices
| Delay nat
| Call_refreshToken

text \<open>
  The environment answers the k-th request of each kind with a latency in milliseconds and a
  reply; \<open>jwt_decode\<close> is the runtime's
  \<open>JSON.parse(Buffer.from(part, 'base64').toString('utf-8'))\<close>, \<open>None\<close> where it throws.
  For an integer beyond 2 to the power 53, \<open>number_value\<close> is the number the runtime
  makes of it (a rounded value, or an infinity) and \<open>number_toString\<close> is what
  \<open>Number.prototype.toString\<close> prints for it (shortest digits, exponent notation from 1e21
  on).
\<close>

record env =
  login_replies :: "nat \<Rightarrow> nat \<times> ThingsboardAuthResponse reply"
  refresh_replies :: "nat \<Rightarrow> nat \<times> ThingsboardAuthResponse reply"
  telemetry_replies :: "nat \<Rightarrow> nat \<times> telemetry_data reply"
  directory_replies :: "nat \<Rightarrow> nat \<times> directory_payload reply"
  jwt_decode :: "string \<Rightarrow> jwt_payload option"
  number_value :: "int \<Rightarrow> jsnum"
  number_toString :: "int \<Rightarrow> string"

text \<open>
  \<open>parseInt(s, 10)\<close>: leading white space is skipped, one sign is read, then the longest run
  of decimal digits; anything after it is ignored, and no digit at all gives \<open>NaN\<close>. The
  digits denote an integer, which is the result when it is a number exactly, and the
  runtime's number for it otherwise.
\<close>

definition parseInt :: "env \<Rightarrow> string \<Rightarrow> jsnum" where
  "parseInt e s =
     (let t = dropWhile is_space s;
          neg = (t \<noteq> [] \<and> hd t = CHR ''-'');
          u = (if t \<noteq> [] \<and> (hd t = CHR ''-'' \<or> hd t = CHR ''+'') then tl t else t);
          ds = takeWhile is_digit u;
          n = (if neg then - int (digits_value ds) else int (digits_value ds))
      in if ds = [] then NaN
         else if exact_integer n then Num n
         else number_value e n)"

text \<open>
  \<open>Number.prototype.toString\<close>, which template strings use as well: every digit of an
  integer that is a number exactly, the runtime's print of a larger one.
\<close>

fun toString :: "env \<Rightarrow> jsnum \<Rightarrow> string" where
  "toString e NaN = ''NaN''"
| "toString e (Num n) = (if exact_integer n then show_int n else number_toString e n)"
| "toString e Infinity = ''Infinity''"
| "toString e Minus_Infinity = ''-Infinity''"

text \<open>
  The state of the process: the clock (\<open>Date.now()\<close>), the fields of
  \<open>ThingsboardAuthService\<close> (\<open>tokenPayload\<close>, \<open>tokenRefreshInterval\<close>), the interval timers
  the runtime holds with their handles and delays, the fields of \<open>DeviceService\<close>
  (\<open>devicesCache\<close>, \<open>cacheTimestamp\<close>), how many requests of each kind were issued, and the
  trace of events.
\<close>

record world =
  now :: int
  tokenPayload :: "ThingsboardTokenPayload option"
  tokenRefreshInterval :: "nat option"
  timers :: "(nat \<times> int) list"
  next_timer :: nat
  devicesCache :: "Device list option"
  cacheTimestamp :: int
  n_login :: nat
  n_refresh :: nat
  n_telemetry :: nat
  n_directory :: nat
  trace :: "event list"

text \<open>
  \<open>await axios.post(login)\<close>, \<open>await axios.post(refresh)\<close>: the request is issued, the
  latency passes, the reply arrives.
\<close>

definition post_login :: "env \<Rightarrow> world \<Rightarrow> ThingsboardAuthResponse reply \<times> world" where
  "post_login e w =
     (snd (login_replies e (n_login w)),
      w\<lparr>n_login := Suc (n_login w),
        trace := trace w @ [Post_login],
        now := now w + int (fst (login_replies e (n_login w)))\<rparr>)"

definition post_refresh ::
  "env \<Rightarrow> string \<Rightarrow> world \<Rightarrow> ThingsboardAuthResponse reply \<times> world" where
  "post_refresh e bearer w =
     (snd (refresh_replies e (n_refresh w)),
      w\<lparr>n_refresh := Suc (n_refresh w),
        trace := trace w @ [Post_refresh bearer],
        now := now w + int (fst (refresh_replies e (n_refresh w)))\<rparr>)"

section \<open>ThingsboardAuthService\<close>

text \<open>
  The constructor prints its three arguments on the console and throws when the username or
  the password is empty. The console is the list of lines printed so far.
\<close>

definition ThingsboardAuthService_constructor ::
  "string \<Rightarrow> string \<Rightarrow> string \<Rightarrow> string list \<Rightarrow> (error + unit) \<times> string list" where
  "ThingsboardAuthService_constructor baseUrl username password console =
     (let console' = console @
            [''THINGSBOARD_USERNAME: '' @ username,
             ''THINGSBOARD_PASSWORD: '' @ password,
             ''THINGSBOARD_BASE_URL: '' @ baseUrl]
      in if username = [] \<or> password = []
         then (Inl (Error ''ThingsBoard credentials not provided in environment variables''),
               console')
         else (Inr (), console'))"

text \<open>
  \<open>getTokenExpiration\<close>: three dot-separated parts, the second decoded; a truthy \<open>exp\<close> gives
  \<open>exp * 1000\<close>; every other case, and every exception, gives now plus 15 minutes.
\<close>

definition getTokenExpiration :: "env \<Rightarrow> world \<Rightarrow> string \<Rightarrow> int" where
  "getTokenExpiration e w tok =
     (let parts = split_on CHR ''.'' tok
      in if length parts \<noteq> 3 then now w + 15 * 60 * 1000
         else (case jwt_decode e (parts ! 1) of
                 None \<Rightarrow> now w + 15 * 60 * 1000
               | Some payload \<Rightarrow>
                   (case exp_claim payload of
                      Some ex \<Rightarrow> if ex \<noteq> 0 then ex * 1000 else now w + 15 * 60 * 1000
                    | None \<Rightarrow> now w + 15 * 60 * 1000)))"

text \<open>
  \<open>clearInterval\<close> and \<open>setInterval\<close> of the runtime. A timer is held with the delay at
  which it fires: the delay it was given when that lies between 1 and \<open>TIMEOUT_MAX\<close>
  (\<open>2\<^sup>3\<^sup>1 - 1\<close>), and 1 millisecond otherwise.
\<close>

definition clearInterval :: "nat \<Rightarrow> world \<Rightarrow> world" where
  "clearInterval h w = w\<lparr>timers := filter (\<lambda>t. fst t \<noteq> h) (timers w)\<rparr>"

definition TIMEOUT_MAX :: int where
  "TIMEOUT_MAX = 2147483647"

definition timer_delay :: "int \<Rightarrow> int" where
  "timer_delay after = (if 1 \<le> after \<and> after \<le> TIMEOUT_MAX then after else 1)"

definition setInterval :: "int \<Rightarrow> world \<Rightarrow> nat \<times> world" where
  "setInterval after w =
     (next_timer w,
      w\<lparr>timers := timers w @ [(next_timer w, timer_delay after)],
        next_timer := Suc (next_timer w)\<rparr>)"

text \<open>
  \<open>setupAutoRefresh\<close>: clear the interval the service holds, then, with a credential stored,
  arm a new interval with delay \<open>max(expiresAt - now - 120000, 60000)\<close>.
\<close>

definition setupAutoRefresh :: "world \<Rightarrow> world" where
  "setupAutoRefresh w =
     (let w1 = (case tokenRefreshInterval w of Some h \<Rightarrow> clearInterval h w | None \<Rightarrow> w)
      in case tokenPayload w1 of
           None \<Rightarrow> w1
         | Some p \<Rightarrow>
             (let timeUntilExpiry = expiresAt p - now w1;
                  refreshDelay = max (timeUntilExpiry - 120000) 60000;
                  hw = setInterval refreshDelay w1
              in (snd hw)\<lparr>tokenRefreshInterval := Some (fst hw)\<rparr>))"

definition cleanup :: "world \<Rightarrow> world" where
  "cleanup w =
     (case tokenRefreshInterval w of
        Some h \<Rightarrow> (clearInterval h w)\<lparr>tokenRefreshInterval := None\<rparr>
      | None \<Rightarrow> w)"

text \<open>
  \<open>storeToken\<close> is the assignment \<open>this.tokenPayload = {token, refreshToken, expiresAt}\<close>
  that \<open>authenticate\<close> and \<open>refreshToken\<close> both make.
\<close>

definition storeToken :: "env \<Rightarrow> ThingsboardAuthResponse \<Rightarrow> world \<Rightarrow> world" where
  "storeToken e d w =
     w\<lparr>tokenPayload := Some \<lparr>token = resp_token d, refresh_token = resp_refreshToken d,
                              expiresAt = getTokenExpiration e w (resp_token d)\<rparr>\<rparr>"

text \<open>
  The line that \<open>authenticate\<close> and \<open>refreshToken\<close> log after storing a credential prints
  \<open>new Date(expiresAt).toISOString()\<close>, which throws a \<open>RangeError\<close> when \<open>expiresAt\<close> is
  not a time value a \<open>Date\<close> holds. \<open>log_expiry\<close> is that exception, if any.
\<close>

definition log_expiry :: "world \<Rightarrow> error option" where
  "log_expiry w =
     (case tokenPayload w of
        None \<Rightarrow> None
      | Some p \<Rightarrow>
          if valid_time_value (expiresAt p) then None
          else Some (RangeError ''Invalid time value''))"

text \<open>
  \<open>authenticate\<close>: every status but 200 throws; on 200 the credential is stored, the
  expiry is logged and the interval is armed. The \<open>catch\<close> logs whatever was thrown and
  throws it again, so an expiry that cannot be logged leaves the credential stored and no
  interval armed.
\<close>

definition authenticate :: "env \<Rightarrow> world \<Rightarrow> (error + string) \<times> world" where
  "authenticate e w =
     (case post_login e w of
        (Rejected m, w1) \<Rightarrow> (Inl (AxiosError m), w1)
      | (Response st txt d, w1) \<Rightarrow>
          if st \<noteq> 200
          then (Inl (Error (''ThingsBoard authentication failed: '' @ toString e (Num (int st))
                       @ '' '' @ txt)), w1)
          else (let w2 = storeToken e d w1
                in case log_expiry w2 of
                     Some err \<Rightarrow> (Inl err, w2)
                   | None \<Rightarrow> (Inr (resp_token d), setupAutoRefresh w2)))"

text \<open>
  The \<open>try\<close> block of \<open>refreshToken\<close>. \<open>Inl\<close> is an exception raised inside the block, which
  the \<open>catch\<close> of \<open>refreshToken\<close> receives; \<open>Inr\<close> is what a \<open>return\<close> statement of the block
  hands back. \<open>return this.authenticate()\<close> on status 401 returns the promise without
  awaiting it, so a failure of that \<open>authenticate()\<close> is the result and never reaches the
  \<open>catch\<close>. On status 200 the credential is stored before the expiry is logged, and an
  expiry that cannot be logged is an exception of the block.
\<close>

definition refreshToken_try ::
  "env \<Rightarrow> ThingsboardTokenPayload \<Rightarrow> world \<Rightarrow> (error + (error + string)) \<times> world" where
  "refreshToken_try e p w =
     (case post_refresh e (refresh_token p) w of
        (Rejected m, w1) \<Rightarrow> (Inl (AxiosError m), w1)
      | (Response st txt d, w1) \<Rightarrow>
          if st = 401 then (case authenticate e w1 of (r, w2) \<Rightarrow> (Inr r, w2))
          else if st \<noteq> 200
          then (Inl (Error (''Token refresh failed: '' @ toString e (Num (int st)) @ '' ''
                       @ txt)), w1)
          else (let w2 = storeToken e d w1
                in case log_expiry w2 of
                     Some err \<Rightarrow> (Inl err, w2)
                   | None \<Rightarrow> (Inr (Inr (resp_token d)), w2)))"

text \<open>
  \<open>refreshToken\<close>: without a refresh token, \<open>authenticate()\<close>; otherwise the \<open>try\<close> block, and
  its \<open>catch\<close> logs the exception and returns \<open>this.authenticate()\<close>.
\<close>

definition refreshToken :: "env \<Rightarrow> world \<Rightarrow> (error + string) \<times> world" where
  "refreshToken e w =
     (case tokenPayload w of
        None \<Rightarrow> authenticate e w
      | Some p \<Rightarrow>
          if refresh_token p = [] then authenticate e w
          else (case refreshToken_try e p w of
                  (Inl err, w1) \<Rightarrow> authenticate e w1
                | (Inr r, w1) \<Rightarrow> (r, w1)))"

definition getValidToken :: "env \<Rightarrow> world \<Rightarrow> (error + string) \<times> world" where
  "getValidToken e w =
     (case tokenPayload w of
        None \<Rightarrow> authenticate e w
      | Some p \<Rightarrow>
          (let timeUntilExpiry = expiresAt p - now w
           in if timeUntilExpiry < 60000 then refreshToken e w
              else (Inr (token p), w)))"

text \<open>
  \<open>getAuthenticatedClient\<close>: the client is an axios instance that sends the token it was
  created with; it is modelled by that token.
\<close>

definition getAuthenticatedClient :: "env \<Rightarrow> world \<Rightarrow> (error + string) \<times> world" where
  "getAuthenticatedClient e w = getValidToken e w"

text \<open>
  The interval callback: \<open>this.refreshToken().catch(...)\<close>, the failure logged and dropped.
  It runs only while the runtime holds a timer.
\<close>

definition timer_fires :: "env \<Rightarrow> world \<Rightarrow> world" where
  "timer_fires e w = (if timers w = [] then w else snd (refreshToken e w))"

section \<open>ThingsboardTelemetryService\<close>

text \<open>The ten arguments of \<open>getTimeseries\<close>, an absent optional argument being \<open>None\<close>.\<close>

record timeseries_request =
  entityType :: string
  entityId :: string
  keys :: "string list"
  startTs :: jsnum
  endTs :: jsnum
  interval :: "jsnum option"
  agg :: "string option"
  orderBy :: "string option"
  limit :: "jsnum option"
  useStrictDataTypes :: "bool option"

definition maxRetries :: nat where
  "maxRetries = 3"

definition retryDelayMs :: nat where
  "retryDelayMs = 1000"

definition build_params :: "env \<Rightarrow> timeseries_request \<Rightarrow> query_params" where
  "build_params e rq =
     \<lparr>p_keys = join '','' (keys rq), p_startTs = toString e (startTs rq),
      p_endTs = toString e (endTs rq), p_interval = interval rq, p_agg = agg rq,
      p_orderBy = orderBy rq, p_limit = limit rq,
      p_useStrictDataTypes = useStrictDataTypes rq\<rparr>"

definition endpoint :: "timeseries_request \<Rightarrow> string" where
  "endpoint rq =
     ''/api/plugins/telemetry/'' @ entityType rq @ ''/'' @ entityId rq @ ''/values/timeseries''"

text \<open>\<open>await client.get(endpoint, {params, validateStatus: () => true})\<close>.\<close>

definition client_get ::
  "env \<Rightarrow> string \<Rightarrow> string \<Rightarrow> query_params \<Rightarrow> world \<Rightarrow> telemetry_data reply \<times> world" where
  "client_get e client path params w =
     (snd (telemetry_replies e (n_telemetry w)),
      w\<lparr>n_telemetry := Suc (n_telemetry w),
        trace := trace w @ [Get_timeseries client path params],
        now := now w + int (fst (telemetry_replies e (n_telemetry w)))\<rparr>)"

definition delay :: "nat \<Rightarrow> world \<Rightarrow> world" where
  "delay ms w = w\<lparr>trace := trace w @ [Delay ms], now := now w + int ms\<rparr>"

definition emit :: "event \<Rightarrow> world \<Rightarrow> world" where
  "emit ev w = w\<lparr>trace := trace w @ [ev]\<rparr>"

text \<open>
  \<open>getTimeseriesWithRetry\<close>. Every exception of the \<open>try\<close> block is logged by the \<open>catch\<close>
  and thrown again, so it is the result. On status 401 with \<open>retryCount < maxRetries\<close> the
  executor first waits \<open>retryDelayMs\<close>, then awaits \<open>authService.refreshToken()\<close>, then
  calls itself with \<open>retryCount + 1\<close>.
\<close>

function getTimeseriesWithRetry ::
  "env \<Rightarrow> timeseries_request \<Rightarrow> nat \<Rightarrow> world \<Rightarrow> (error + telemetry_data) \<times> world" where
  "getTimeseriesWithRetry e rq retryCount w =
     (case getAuthenticatedClient e w of
        (Inl err, w1) \<Rightarrow> (Inl err, w1)
      | (Inr client, w1) \<Rightarrow>
          (case client_get e client (endpoint rq) (build_params e rq) w1 of
             (Rejected m, w2) \<Rightarrow> (Inl (AxiosError m), w2)
           | (Response st txt d, w2) \<Rightarrow>
               if st = 200 then (Inr d, w2)
               else if st = 401 \<and> retryCount < maxRetries
               then (case refreshToken e (emit Call_refreshToken (delay retryDelayMs w2)) of
                       (Inl err, w3) \<Rightarrow> (Inl err, w3)
                     | (Inr new_token, w3) \<Rightarrow> getTimeseriesWithRetry e rq (retryCount + 1) w3)
               else if st = 404
               then (Inl (Error (''Entity not found: '' @ entityType rq @ ''/'' @ entityId rq
                            @ '' (404). Check entity ID and type.'')), w2)
               else if st = 400
               then (Inl (Error (''Bad request: '' @
                            (if data_message d \<noteq> [] then data_message d
                             else ''Invalid parameters''))), w2)
               else (Inl (Error (''ThingsBoard API error: '' @ toString e (Num (int st))
                            @ '' '' @ txt @ [CHR 0x0A] @ data_json d)), w2)))"
  by pat_completeness auto
termination
  by (relation "measure (\<lambda>(e, rq, retryCount, w). maxRetries - retryCount)") auto

declare getTimeseriesWithRetry.simps [simp del]

definition getTimeseries ::
  "env \<Rightarrow> timeseries_request \<Rightarrow> world \<Rightarrow> (error + telemetry_data) \<times> world" where
  "getTimeseries e rq w = getTimeseriesWithRetry e rq 0 w"

section \<open>DeviceService\<close>

definition baseUrl :: string where
  "baseUrl = ''http://localhost:4000''"

definition cacheDuration :: int where
  "cacheDuration = 5 * 60 * 1000"

definition isCacheFresh :: "world \<Rightarrow> bool" where
  "isCacheFresh w = (now w - cacheTimestamp w < cacheDuration)"

text \<open>
  \<open>await axios.get(.../customer/devices, {timeout})\<close>: with the default \<open>validateStatus\<close>
  a status outside 200..299 rejects the promise.
\<close>

definition get_devices :: "env \<Rightarrow> world \<Rightarrow> directory_payload reply \<times> world" where
  "get_devices e w =
     (snd (directory_replies e (n_directory w)),
      w\<lparr>n_directory := Suc (n_directory w),
        trace := trace w @ [Get_devices],
        now := now w + int (fst (directory_replies e (n_directory w)))\<rparr>)"

text \<open>The \<open>try\<close> block of \<open>getDevices\<close>; \<open>Inl\<close> is the exception its \<open>catch\<close> receives.\<close>

definition getDevices_try :: "env \<Rightarrow> bool \<Rightarrow> world \<Rightarrow> (error + Device list) \<times> world" where
  "getDevices_try e forceRefresh w =
     (case (if \<not> forceRefresh \<and> isCacheFresh w then devicesCache w else None) of
        Some cached \<Rightarrow> (Inr cached, w)
      | None \<Rightarrow>
          (case get_devices e w of
             (Rejected m, w1) \<Rightarrow> (Inl (AxiosError m), w1)
           | (Response st txt payload, w1) \<Rightarrow>
               if \<not> (200 \<le> st \<and> st < 300)
               then (Inl (AxiosError (''Request failed with status code ''
                            @ toString e (Num (int st)))), w1)
               else (case (case payload of With_data inner \<Rightarrow> inner | _ \<Rightarrow> payload) of
                       Array devices \<Rightarrow>
                         (Inr devices,
                          w1\<lparr>devicesCache := Some devices, cacheTimestamp := now w1\<rparr>)
                     | _ \<Rightarrow> (Inl (Error ''Invalid devices response: expected array''), w1))))"

definition getDevices :: "env \<Rightarrow> bool \<Rightarrow> world \<Rightarrow> (error + Device list) \<times> world" where
  "getDevices e forceRefresh w =
     (case getDevices_try e forceRefresh w of
        (Inr devices, w1) \<Rightarrow> (Inr devices, w1)
      | (Inl err, w1) \<Rightarrow>
          (case devicesCache w1 of
             Some cached \<Rightarrow> (Inr cached, w1)
           | None \<Rightarrow>
               (Inl (Error (''Failed to fetch devices from '' @ baseUrl @ ''/customer/devices: ''
                        @ message err)), w1)))"

definition getDeviceByUUID ::
  "env \<Rightarrow> string \<Rightarrow> bool \<Rightarrow> world \<Rightarrow> (error + Device) \<times> world" where
  "getDeviceByUUID e uuid forceRefresh w =
     (case getDevices e forceRefresh w of
        (Inl err, w1) \<Rightarrow> (Inl err, w1)
      | (Inr devices, w1) \<Rightarrow>
          (case find (\<lambda>d. deviceUUID d = uuid) devices of
             None \<Rightarrow> (Inl (Error (''Device with UUID '' @ uuid @ '' not found'')), w1)
           | Some device \<Rightarrow> (Inr device, w1)))"

definition validateDevice :: "env \<Rightarrow> string \<Rightarrow> world \<Rightarrow> (error + Device) \<times> world" where
  "validateDevice e uuid w =
     (case getDeviceByUUID e uuid False w of
        (Inr device, w1) \<Rightarrow> (Inr device, w1)
      | (Inl err, w1) \<Rightarrow> getDeviceByUUID e uuid True w1)"

definition clearCache :: "world \<Rightarrow> world" where
  "clearCache w = w\<lparr>devicesCache := None, cacheTimestamp := 0\<rparr>"

text \<open>
  A fetch of the device list fails when the request is rejected, when the status is outside
  200..299, or when the payload, unwrapped from \<open>data\<close>, is not an array.
\<close>

fun fetch_fails :: "directory_payload reply \<Rightarrow> bool" where
  "fetch_fails (Rejected m) = True"
| "fetch_fails (Response st txt (Array devices)) = (\<not> (200 \<le> st \<and> st < 300))"
| "fetch_fails (Response st txt (With_data (Array devices))) = (\<not> (200 \<le> st \<and> st < 300))"
| "fetch_fails (Response st txt (With_data (With_data inner))) = True"
| "fetch_fails (Response st txt (With_data Other)) = True"
| "fetch_fails (Response st txt Other) = True"

section \<open>The route \<open>GET /:deviceUUID/timeseries\<close>\<close>

text \<open>
  The query string of a request: each parameter is absent or a string. A parameter is truthy
  when it is present and not empty; \<open>String(x)\<close> of a present parameter is the string.
\<close>

record raw_query =
  q_keys :: "string option"
  q_startTs :: "string option"
  q_endTs :: "string option"
  q_interval :: "string option"
  q_agg :: "string option"
  q_orderBy :: "string option"
  q_limit :: "string option"
  q_useStrictDataTypes :: "string option"

fun truthy :: "string option \<Rightarrow> bool" where
  "truthy None = False"
| "truthy (Some s) = (s \<noteq> [])"

fun String :: "string option \<Rightarrow> string" where
  "String None = ''undefined''"
| "String (Some s) = s"

text \<open>
  A response of the gateway: a failure with its HTTP status and \<open>{success: false, error}\<close>,
  or status 200 with \<open>{success: true, data, device, meta}\<close>. The \<open>device\<close> member holds the
  uuid, the name and the access token of the device; \<open>meta\<close> repeats the request, with
  \<open>agg || 'NONE'\<close> and \<open>orderBy || 'default'\<close>.
\<close>

datatype gateway_response =
  Failure_json nat string
| Success_json telemetry_data Device timeseries_request

definition validAgg :: "string list" where
  "validAgg = [''NONE'', ''AVG'', ''MIN'', ''MAX'', ''SUM'']"

definition validOrder :: "string list" where
  "validOrder = [''ASC'', ''DESC'']"

text \<open>
  \<open>const v = x ? parseInt(String(x), 10) : undefined\<close>, and the test
  \<open>v && (isNaN(v) || v < 1)\<close> that rejects it: \<open>undefined\<close>, \<open>NaN\<close> and 0 are falsy.
\<close>

definition optional_int :: "env \<Rightarrow> string option \<Rightarrow> jsnum option" where
  "optional_int e x = (if truthy x then Some (parseInt e (String x)) else None)"

fun rejected_number :: "jsnum option \<Rightarrow> bool" where
  "rejected_number None = False"
| "rejected_number (Some v) = (truthy_num v \<and> (isNaN v \<or> less_than v (Num 1)))"

definition missing_required :: "raw_query \<Rightarrow> bool" where
  "missing_required q = (\<not> truthy (q_keys q) \<or> \<not> truthy (q_startTs q) \<or> \<not> truthy (q_endTs q))"

text \<open>
  The checks of the handler that follow the device lookup, in their order: \<open>Inl\<close> is the
  \<open>error\<close> of a 400 response, \<open>Inr\<close> the arguments with which \<open>getTimeseries\<close> is called.
\<close>

definition keyArray_of :: "raw_query \<Rightarrow> string list" where
  "keyArray_of q =
     filter (\<lambda>k. length k > 0) (map trim (split_on CHR '','' (String (q_keys q))))"

definition parse_query :: "env \<Rightarrow> string \<Rightarrow> raw_query \<Rightarrow> string + timeseries_request" where
  "parse_query e uuid q =
     (let startTimestamp = parseInt e (String (q_startTs q));
          endTimestamp = parseInt e (String (q_endTs q));
          keyArray = keyArray_of q;
          intervalValue = optional_int e (q_interval q);
          limitValue = optional_int e (q_limit q)
      in if isNaN startTimestamp \<or> isNaN endTimestamp
         then Inl ''Invalid timestamp format. Expected milliseconds.''
         else if greater_or_equal startTimestamp endTimestamp
         then Inl ''startTs must be less than endTs''
         else if length keyArray = 0 then Inl ''At least one key must be provided''
         else if rejected_number intervalValue
         then Inl ''Interval must be a positive number''
         else if truthy (q_agg q) \<and> toUpperCase (String (q_agg q)) \<notin> set validAgg
         then Inl (''Invalid aggregation function. Must be one of: '' @ join '', '' validAgg)
         else if truthy (q_orderBy q) \<and> toUpperCase (String (q_orderBy q)) \<notin> set validOrder
         then Inl ''Invalid orderBy. Must be ASC or DESC''
         else if rejected_number limitValue
         then Inl ''Limit must be a positive number''
         else Inr \<lparr>entityType = ''DEVICE'', entityId = uuid, keys = keyArray,
                   startTs = startTimestamp, endTs = endTimestamp,
                   interval = intervalValue,
                   agg = (if truthy (q_agg q) then Some (String (q_agg q)) else None),
                   orderBy = (if truthy (q_orderBy q) then Some (String (q_orderBy q))
                              else None),
                   limit = limitValue,
                   useStrictDataTypes =
                     (if truthy (q_useStrictDataTypes q)
                         \<and> toLowerCase (String (q_useStrictDataTypes q)) = ''true''
                      then Some True else None)\<rparr>)"

definition meta_of :: "timeseries_request \<Rightarrow> timeseries_request" where
  "meta_of rq =
     rq\<lparr>agg := Some (case agg rq of Some a \<Rightarrow> a | None \<Rightarrow> ''NONE''),
        orderBy := Some (case orderBy rq of Some ob \<Rightarrow> ob | None \<Rightarrow> ''default'')\<rparr>"

text \<open>The \<open>catch\<close> of the handler: 404 when the message includes \<open>not found\<close>, else 502.\<close>

definition route_catch :: "error \<Rightarrow> gateway_response" where
  "route_catch err =
     (if includesStr (message err) ''not found'' then Failure_json 404 (message err)
      else Failure_json 502 (message err))"

definition timeseries_route ::
  "env \<Rightarrow> string \<Rightarrow> raw_query \<Rightarrow> world \<Rightarrow> gateway_response \<times> world" where
  "timeseries_route e uuid q w =
     (if missing_required q
      then (Failure_json 400 ''Missing required parameters: keys, startTs, endTs'', w)
      else (case validateDevice e uuid w of
              (Inl err, w1) \<Rightarrow> (route_catch err, w1)
            | (Inr device, w1) \<Rightarrow>
                (case parse_query e uuid q of
                   Inl reason \<Rightarrow> (Failure_json 400 reason, w1)
                 | Inr rq \<Rightarrow>
                     (case getTimeseries e rq w1 of
                        (Inl err, w2) \<Rightarrow> (route_catch err, w2)
                      | (Inr d, w2) \<Rightarrow> (Success_json d device (meta_of rq), w2)))))"

section \<open>Asynchronous calls in flight\<close>

text \<open>
  An \<open>async\<close> method runs without interruption up to the \<open>await\<close> of an HTTP call; there
  the event loop may run other callers, and the method goes on when its reply arrives. A call
  of \<open>getValidToken\<close>, \<open>refreshToken\<close> or \<open>authenticate\<close> is therefore either settled or
  suspended on its k-th login or refresh request. \<open>_start\<close> is the code up to the first
  \<open>await\<close>; \<open>resume\<close> is the code from the arrival of the reply to the next \<open>await\<close> or
  the end.
\<close>

datatype pending = Await_login nat | Await_refresh nat

datatype call = Settled "error + string" | Suspended pending

definition authenticate_start :: "world \<Rightarrow> call \<times> world" where
  "authenticate_start w =
     (Suspended (Await_login (n_login w)),
      w\<lparr>n_login := Suc (n_login w), trace := trace w @ [Post_login]\<rparr>)"

definition refreshToken_start :: "world \<Rightarrow> call \<times> world" where
  "refreshToken_start w =
     (case tokenPayload w of
        None \<Rightarrow> authenticate_start w
      | Some p \<Rightarrow>
          if refresh_token p = [] then authenticate_start w
          else (Suspended (Await_refresh (n_refresh w)),
                w\<lparr>n_refresh := Suc (n_refresh w),
                  trace := trace w @ [Post_refresh (refresh_token p)]\<rparr>))"

definition getValidToken_start :: "world \<Rightarrow> call \<times> world" where
  "getValidToken_start w =
     (case tokenPayload w of
        None \<Rightarrow> authenticate_start w
      | Some p \<Rightarrow>
          if expiresAt p - now w < 60000 then refreshToken_start w
          else (Settled (Inr (token p)), w))"

fun resume :: "env \<Rightarrow> pending \<Rightarrow> world \<Rightarrow> call \<times> world" where
  "resume e (Await_login k) w =
     (let w1 = w\<lparr>now := now w + int (fst (login_replies e k))\<rparr>
      in case snd (login_replies e k) of
           Rejected m \<Rightarrow> (Settled (Inl (AxiosError m)), w1)
         | Response st txt d \<Rightarrow>
             if st \<noteq> 200
             then (Settled (Inl (Error (''ThingsBoard authentication failed: ''
                                   @ toString e (Num (int st)) @ '' '' @ txt))), w1)
             else (let w2 = storeToken e d w1
                   in case log_expiry w2 of
                        Some err \<Rightarrow> (Settled (Inl err), w2)
                      | None \<Rightarrow> (Settled (Inr (resp_token d)), setupAutoRefresh w2)))"
| "resume e (Await_refresh k) w =
     (let w1 = w\<lparr>now := now w + int (fst (refresh_replies e k))\<rparr>
      in case snd (refresh_replies e k) of
           Rejected m \<Rightarrow> authenticate_start w1
         | Response st txt d \<Rightarrow>
             if st = 401 then authenticate_start w1
             else if st \<noteq> 200 then authenticate_start w1
             else (let w2 = storeToken e d w1
                   in case log_expiry w2 of
                        Some err \<Rightarrow> authenticate_start w2
                      | None \<Rightarrow> (Settled (Inr (resp_token d)), w2)))"

text \<open>
  A call that no other caller interleaves with: every reply is awaited in turn, at most
  \<open>n\<close> of them.
\<close>

fun await_all :: "nat \<Rightarrow> env \<Rightarrow> call \<Rightarrow> world \<Rightarrow> ((error + string) \<times> world) option" where
  "await_all n e (Settled r) w = Some (r, w)"
| "await_all 0 e (Suspended p) w = None"
| "await_all (Suc n) e (Suspended p) w = (case resume e p w of (c, w1) \<Rightarrow> await_all n e c w1)"

section \<open>Runs of the process\<close>

text \<open>
  The process starts at some time with nothing stored. A run is a sequence of steps: time
  passes, a method is called and runs to its end, the interval callback fires, a request
  reaches the route, or, for interleaved callers, a call of \<open>getValidToken\<close>,
  \<open>refreshToken\<close> or \<open>authenticate\<close> is started or a suspended call is resumed.
\<close>

definition initial :: "int \<Rightarrow> world" where
  "initial t =
     \<lparr>now = t, tokenPayload = None, tokenRefreshInterval = None, timers = [], next_timer = 0,
      devicesCache = None, cacheTimestamp = 0, n_login = 0, n_refresh = 0, n_telemetry = 0,
      n_directory = 0, trace = []\<rparr>"

definition tick :: "nat \<Rightarrow> world \<Rightarrow> world" where
  "tick ms w = w\<lparr>now := now w + int ms\<rparr>"

datatype step =
  Tick nat
| Authenticate
| RefreshToken
| GetValidToken
| GetTimeseries timeseries_request
| Timer_fires
| Cleanup
| GetDevices bool
| ClearCache
| Route string raw_query
| Start_authenticate
| Start_refreshToken
| Start_getValidToken
| Resume pending

fun perform :: "env \<Rightarrow> step \<Rightarrow> world \<Rightarrow> world" where
  "perform e (Tick ms) w = tick ms w"
| "perform e Authenticate w = snd (authenticate e w)"
| "perform e RefreshToken w = snd (refreshToken e w)"
| "perform e GetValidToken w = snd (getValidToken e w)"
| "perform e (GetTimeseries rq) w = snd (getTimeseries e rq w)"
| "perform e Timer_fires w = timer_fires e w"
| "perform e Cleanup w = cleanup w"
| "perform e (GetDevices forceRefresh) w = snd (getDevices e forceRefresh w)"
| "perform e ClearCache w = clearCache w"
| "perform e (Route uuid q) w = snd (timeseries_route e uuid q w)"
| "perform e Start_authenticate w = snd (authenticate_start w)"
| "perform e Start_refreshToken w = snd (refreshToken_start w)"
| "perform e Start_getValidToken w = snd (getValidToken_start w)"
| "perform e (Resume p) w = snd (resume e p w)"

fun run :: "env \<Rightarrow> step list \<Rightarrow> world \<Rightarrow> world" where
  "run e [] w = w"
| "run e (s # ss) w = run e ss (perform e s w)"


text \<open>
  The back-offs and the executor's calls of \<open>refreshToken\<close> in a trace, in their order,
  and the number of those calls.
\<close>

fun retry_event :: "event \<Rightarrow> bool" where
  "retry_event (Delay ms) = True"
| "retry_event Call_refreshToken = True"
| "retry_event (Get_timeseries client path params) = False"
| "retry_event Post_login = False"
| "retry_event (Post_refresh bearer) = False"
| "retry_event Get_devices = False"

definition retry_events :: "world \<Rightarrow> event list" where
  "retry_events w = filter retry_event (trace w)"

definition forced_refreshes :: "world \<Rightarrow> nat" where
  "forced_refreshes w = length (filter (\<lambda>ev. ev = Call_refreshToken) (trace w))"

text \<open>What the executor adds to the state: its requests, back-offs and forced refreshes.\<close>

definition executor_view :: "world \<Rightarrow> nat \<times> event list \<times> nat" where
  "executor_view w = (n_telemetry w, retry_events w, forced_refreshes w)"

text \<open>The requests sent to the telemetry platform so far: logins, refreshes, queries.\<close>

definition upstream_requests :: "world \<Rightarrow> nat \<times> nat \<times> nat" where
  "upstream_requests w = (n_login w, n_refresh w, n_telemetry w)"

text \<open>
  \<open>k\<close> rounds of the executor in each of which a token is obtained, the query is answered
  with status 401, the executor waits \<open>retryDelayMs\<close> and its call of \<open>refreshToken\<close>
  succeeds: the state after the last of them, \<open>None\<close> when one of the rounds goes otherwise.
\<close>

fun healed_rounds :: "nat \<Rightarrow> env \<Rightarrow> timeseries_request \<Rightarrow> world \<Rightarrow> world option" where
  "healed_rounds 0 e rq w = Some w"
| "healed_rounds (Suc k) e rq w =
     (case getValidToken e w of
        (Inl err, w1) \<Rightarrow> None
      | (Inr tok, w1) \<Rightarrow>
          (case client_get e tok (endpoint rq) (build_params e rq) w1 of
             (Rejected m, w2) \<Rightarrow> None
           | (Response st txt d, w2) \<Rightarrow>
               if st \<noteq> 401 then None
               else (case refreshToken e (emit Call_refreshToken (delay retryDelayMs w2)) of
                       (Inl err, w3) \<Rightarrow> None
                     | (Inr new_token, w3) \<Rightarrow> healed_rounds k e rq w3)))"

text \<open>Calls of \<open>getDevices\<close> one after the other, some time passing before each.\<close>

fun getDevices_calls :: "env \<Rightarrow> (nat \<times> bool) list \<Rightarrow> world \<Rightarrow> (error + Device list) list" where
  "getDevices_calls e [] w = []"
| "getDevices_calls e ((ms, forceRefresh) # cs) w =
     (case getDevices e forceRefresh (tick ms w) of (r, w1) \<Rightarrow> r # getDevices_calls e cs w1)"

section \<open>Scenarios\<close>

text \<open>
  Concrete upstreams and states on which the theorems below are exercised. The example
  decoder reads the middle part of six tokens: \<open>fresh\<close> expires at second 10000, \<open>p900\<close>
  at second 900, \<open>month\<close> at second 2592000, \<open>far\<close> at second 8640000000001, one second
  after the last time a \<open>Date\<close> holds, \<open>zero\<close> carries \<open>exp = 0\<close>, \<open>noexp\<close> carries no
  \<open>exp\<close>; nothing else parses.
\<close>

definition decode_example :: "string \<Rightarrow> jwt_payload option" where
  "decode_example part =
     (if part = ''fresh'' then Some (Payload (Some 10000))
      else if part = ''p900'' then Some (Payload (Some 900))
      else if part = ''month'' then Some (Payload (Some 2592000))
      else if part = ''far'' then Some (Payload (Some 8640000000001))
      else if part = ''zero'' then Some (Payload (Some 0))
      else if part = ''noexp'' then Some (Payload None)
      else None)"

definition tokens :: "string \<Rightarrow> string \<Rightarrow> ThingsboardAuthResponse" where
  "tokens tok rt = \<lparr>resp_token = tok, resp_refreshToken = rt\<rparr>"

definition sample_data :: telemetry_data where
  "sample_data =
     \<lparr>series = [(''temperature'', [(1705689600000, ''21.5'')]), (''humidity'', [])],
      data_message = [], data_json = ''{...}''\<rparr>"

definition error_data :: "string \<Rightarrow> telemetry_data" where
  "error_data m = \<lparr>series = [], data_message = m, data_json = ''{...}''\<rparr>"

definition device_example :: Device where
  "device_example =
     \<lparr>deviceUUID = ''545ffcb0'', accessToken = ''device-secret'', name = Some ''Meter 1''\<rparr>"

text \<open>
  The example upstream accepts every login and every refresh after 20 ms, answers every
  telemetry query with the sample after 30 ms and lists one device after 10 ms. No scenario
  reads or prints an integer beyond 2 to the power 53, so the runtime of the scenarios is
  never asked for one; it would answer with an infinity.
\<close>

definition env_example :: env where
  "env_example =
     \<lparr>login_replies = (\<lambda>k. (20, Response 200 ''OK'' (tokens ''h.fresh.s'' ''r1''))),
      refresh_replies = (\<lambda>k. (20, Response 200 ''OK'' (tokens ''h.fresh.s'' ''r2''))),
      telemetry_replies = (\<lambda>k. (30, Response 200 ''OK'' sample_data)),
      directory_replies = (\<lambda>k. (10, Response 200 ''OK'' (With_data (Array [device_example])))),
      jwt_decode = decode_example,
      number_value = (\<lambda>n. if n < 0 then Minus_Infinity else Infinity),
      number_toString = (\<lambda>n. if n < 0 then ''-Infinity'' else ''Infinity'')\<rparr>"

text \<open>The process at time \<open>t\<close> holding a credential.\<close>

definition holding :: "string \<Rightarrow> string \<Rightarrow> int \<Rightarrow> int \<Rightarrow> world" where
  "holding tok rt ex t =
     (initial t)\<lparr>tokenPayload := Some \<lparr>token = tok, refresh_token = rt, expiresAt = ex\<rparr>\<rparr>"

text \<open>An upstream whose refresh endpoint answers 500.\<close>

definition env_refresh_500 :: env where
  "env_refresh_500 =
     env_example\<lparr>refresh_replies :=
       (\<lambda>k. (20, Response 500 ''Internal Server Error'' (tokens [] [])))\<rparr>"

text \<open>
  An upstream that answers every telemetry query with 401, one that answers the first
  with 401 and the others with the sample, and one that answers the first three with 401 and
  the others with the sample.
\<close>

definition env_always_401 :: env where
  "env_always_401 =
     env_example\<lparr>telemetry_replies :=
       (\<lambda>k. (30, Response 401 ''Unauthorized'' (error_data ''Token has expired'')))\<rparr>"

definition env_401_once :: env where
  "env_401_once =
     env_example\<lparr>telemetry_replies :=
       (\<lambda>k. if k = 0 then (30, Response 401 ''Unauthorized'' (error_data ''Token has expired''))
            else (30, Response 200 ''OK'' sample_data))\<rparr>"

definition env_401_thrice :: env where
  "env_401_thrice =
     env_example\<lparr>telemetry_replies :=
       (\<lambda>k. if k < 3 then (30, Response 401 ''Unauthorized'' (error_data ''Token has expired''))
            else (30, Response 200 ''OK'' sample_data))\<rparr>"

definition request_example :: timeseries_request where
  "request_example =
     \<lparr>entityType = ''DEVICE'', entityId = ''545ffcb0'', keys = [''temperature'', ''humidity''],
      startTs = Num 1705689600000, endTs = Num 1705776000000, interval = None, agg = None,
      orderBy = None, limit = None, useStrictDataTypes = None\<rparr>"



definition env_far_login :: env where
  "env_far_login =
     env_example\<lparr>login_replies := (\<lambda>k. (20, Response 200 ''OK'' (tokens ''h.far.s'' ''r1'')))\<rparr>"


text \<open>
  A device directory that answers once and is unreachable afterwards, upstreams that answer
  every telemetry query with 400 or with 404, one that answers them with 404 while its login
  and refresh endpoints are unreachable, one whose telemetry endpoint is unreachable, and a
  query string.
\<close>

definition env_directory_down :: env where
  "env_directory_down =
     env_example\<lparr>directory_replies :=
       (\<lambda>k. if k = 0 then (10, Response 200 ''OK'' (With_data (Array [device_example])))
            else (10, Rejected ''connect ECONNREFUSED''))\<rparr>"

definition env_400 :: env where
  "env_400 =
     env_example\<lparr>telemetry_replies :=
       (\<lambda>k. (30, Response 400 ''Bad Request'' (error_data ''Invalid key'')))\<rparr>"

definition env_404 :: env where
  "env_404 =
     env_example\<lparr>telemetry_replies :=
       (\<lambda>k. (30, Response 404 ''Not Found'' (error_data [])))\<rparr>"

definition env_404_auth_down :: env where
  "env_404_auth_down =
     env_404\<lparr>login_replies := (\<lambda>k. (20, Rejected ''connect ECONNREFUSED'')),
              refresh_replies := (\<lambda>k. (20, Rejected ''connect ECONNREFUSED''))\<rparr>"

definition env_telemetry_down :: env where
  "env_telemetry_down =
     env_example\<lparr>telemetry_replies := (\<lambda>k. (30, Rejected ''timeout of 30000ms exceeded''))\<rparr>"

definition query_example :: raw_query where
  "query_example =
     \<lparr>q_keys = Some ''temperature,humidity'', q_startTs = Some ''1705689600000'',
      q_endTs = Some ''1705776000000'', q_interval = None, q_agg = None, q_orderBy = None,
      q_limit = None, q_useStrictDataTypes = None\<rparr>"

section \<open>What the authentication calls leave unchanged\<close>

lemma auth_preserves:
  assumes login: "\<And>w. P w \<Longrightarrow> P (snd (post_login e w))"
    and refresh: "\<And>w b. P w \<Longrightarrow> P (snd (post_refresh e b w))"
    and store: "\<And>w d. P w \<Longrightarrow> P (storeToken e d w)"
    and arm: "\<And>w. P w \<Longrightarrow> P (setupAutoRefresh w)"
  shows authenticate_preserves: "P w \<Longrightarrow> P (snd (authenticate e w))"
    and refreshToken_preserves: "P w \<Longrightarrow> P (snd (refreshToken e w))"
    and getValidToken_preserves: "P w \<Longrightarrow> P (snd (getValidToken e w))"
proof -
  show a: "P w \<Longrightarrow> P (snd (authenticate e w))" for w
    using login [of w] store arm
    by (auto simp: authenticate_def Let_def split: prod.splits reply.splits option.splits)
  show r: "P w \<Longrightarrow> P (snd (refreshToken e w))" for w
  proof -
    assume p: "P w"
    show ?thesis
    proof (cases "tokenPayload w")
      case None
      with p a show ?thesis by (simp add: refreshToken_def)
    next
      case (Some pl)
      show ?thesis
      proof (cases "refresh_token pl = []")
        case True
        with Some p a show ?thesis by (simp add: refreshToken_def)
      next
        case False
        obtain rep w1 where sent: "post_refresh e (refresh_token pl) w = (rep, w1)"
          by (cases "post_refresh e (refresh_token pl) w")
        have p1: "P w1" using refresh [OF p, of "refresh_token pl"] sent by simp
        show ?thesis
          using Some False sent p1 a [of w1] store [OF p1] a [OF store [OF p1]]
          by (cases rep)
            (auto simp: refreshToken_def refreshToken_try_def Let_def
              split: prod.splits option.splits)
      qed
    qed
  qed
  show "P w \<Longrightarrow> P (snd (getValidToken e w))"
    using a r by (auto simp: getValidToken_def split: option.splits)
qed


lemmas scenario_defs =
  env_example_def env_refresh_500_def decode_example_def tokens_def holding_def initial_def

lemmas number_defs =
  exact_integer_def valid_time_value_def show_int_def show_nat.simps digit_char_def

lemmas auth_defs =
  getValidToken_def refreshToken_def refreshToken_try_def authenticate_def post_login_def
  post_refresh_def storeToken_def log_expiry_def setupAutoRefresh_def setInterval_def
  timer_delay_def TIMEOUT_MAX_def clearInterval_def getTokenExpiration_def
  valid_time_value_def

text \<open>The expiry that is logged is the one \<open>getTokenExpiration\<close> gave for the new token.\<close>

lemma log_expiry_storeToken:
  "log_expiry (storeToken e d w) =
     (if valid_time_value (getTokenExpiration e w (resp_token d)) then None
      else Some (RangeError ''Invalid time value''))"
  by (simp add: log_expiry_def storeToken_def)

lemma storeToken_requests:
  "n_login (storeToken e d w) = n_login w" "n_refresh (storeToken e d w) = n_refresh w"
  by (simp_all add: storeToken_def)

lemma authenticate_requests:
  "n_login (snd (authenticate e w)) = Suc (n_login w)
   \<and> n_refresh (snd (authenticate e w)) = n_refresh w"
  by (auto simp: authenticate_def post_login_def storeToken_def setupAutoRefresh_def
      setInterval_def clearInterval_def Let_def split: reply.splits option.splits)

lemma authenticate_token:
  "fst (authenticate e w) = Inr t \<Longrightarrow>
   \<exists>txt d. resp_token d = t \<and> snd (login_replies e (n_login w)) = Response 200 txt d"
  by (auto simp: authenticate_def post_login_def Let_def
      split: reply.splits if_splits option.splits)

text \<open>
  \<open>refreshToken\<close> with a refresh token held, by the reply to its refresh request: only a 200
  whose expiry can be logged is a renewal, everything else is \<open>authenticate()\<close>.
\<close>

lemma refreshToken_by_case:
  assumes "tokenPayload w = Some p" and "refresh_token p \<noteq> []"
  shows "refreshToken e w =
     (case snd (refresh_replies e (n_refresh w)) of
        Rejected m \<Rightarrow> authenticate e (snd (post_refresh e (refresh_token p) w))
      | Response st txt d \<Rightarrow>
          if st = 200
          then (if valid_time_value
                     (getTokenExpiration e (snd (post_refresh e (refresh_token p) w))
                        (resp_token d))
                then (Inr (resp_token d),
                      storeToken e d (snd (post_refresh e (refresh_token p) w)))
                else authenticate e (storeToken e d (snd (post_refresh e (refresh_token p) w))))
          else authenticate e (snd (post_refresh e (refresh_token p) w)))"
  using assms
  by (auto simp: refreshToken_def refreshToken_try_def post_refresh_def Let_def
      log_expiry_storeToken split: reply.splits prod.splits sum.splits)

lemma post_refresh_requests:
  "n_login (snd (post_refresh e b w)) = n_login w
   \<and> n_refresh (snd (post_refresh e b w)) = Suc (n_refresh w)"
  by (simp add: post_refresh_def)

lemma refreshToken_requests:
  "n_login w + n_refresh w
     < n_login (snd (refreshToken e w)) + n_refresh (snd (refreshToken e w))"
proof (cases "tokenPayload w")
  case None
  then show ?thesis by (simp add: refreshToken_def authenticate_requests)
next
  case (Some p)
  show ?thesis
  proof (cases "refresh_token p = []")
    case True
    with Some show ?thesis by (simp add: refreshToken_def authenticate_requests)
  next
    case False
    show ?thesis
      unfolding refreshToken_by_case [OF Some False]
      by (simp add: authenticate_requests post_refresh_requests storeToken_requests
          split: reply.splits)
  qed
qed

lemma refreshToken_token:
  assumes "fst (refreshToken e w) = Inr t"
  shows "\<exists>txt d. resp_token d = t
     \<and> (snd (refresh_replies e (n_refresh w)) = Response 200 txt d
        \<or> snd (login_replies e (n_login w)) = Response 200 txt d)"
proof (cases "tokenPayload w")
  case None
  with assms show ?thesis using authenticate_token [of e w t] by (auto simp: refreshToken_def)
next
  case (Some p)
  show ?thesis
  proof (cases "refresh_token p = []")
    case True
    with Some assms show ?thesis
      using authenticate_token [of e w t] by (auto simp: refreshToken_def)
  next
    case False
    have 1: "fst (authenticate e (snd (post_refresh e (refresh_token p) w))) = Inr t \<Longrightarrow> ?thesis"
      using authenticate_token [of e "snd (post_refresh e (refresh_token p) w)" t]
      by (auto simp: post_refresh_requests)
    have 2: "fst (authenticate e (storeToken e d (snd (post_refresh e (refresh_token p) w))))
               = Inr t \<Longrightarrow> ?thesis" for d
      using authenticate_token [of e "storeToken e d (snd (post_refresh e (refresh_token p) w))" t]
      by (auto simp: post_refresh_requests storeToken_requests)
    show ?thesis
      using assms 1 2 unfolding refreshToken_by_case [OF Some False]
      by (auto split: reply.splits if_splits)
  qed
qed

section \<open>C2: the three cases of \<open>getValidToken\<close>\<close>

text \<open>
  C2. \<open>getValidToken\<close> dispatches in exactly three cases. With no credential it is
  \<open>authenticate()\<close>. With a credential that has less than 60000 ms left (an expiry in the
  past included) it is \<open>refreshToken()\<close>: at least one login or refresh request goes
  upstream, and a token it returns is the one of the 200 reply to this call's refresh or
  login request, never the cached one. Otherwise it returns the cached token and the state
  is unchanged, so no request is made.
\<close>

theorem getValidToken_dispatch:
  "(tokenPayload w = None \<longrightarrow> getValidToken e w = authenticate e w) \<and>
   (\<forall>p. tokenPayload w = Some p \<and> expiresAt p - now w < 60000 \<longrightarrow>
      getValidToken e w = refreshToken e w
      \<and> n_login w + n_refresh w
          < n_login (snd (getValidToken e w)) + n_refresh (snd (getValidToken e w))
      \<and> (\<forall>t. fst (getValidToken e w) = Inr t \<longrightarrow>
            (\<exists>txt d. resp_token d = t
               \<and> (snd (refresh_replies e (n_refresh w)) = Response 200 txt d
                  \<or> snd (login_replies e (n_login w)) = Response 200 txt d)))) \<and>
   (\<forall>p. tokenPayload w = Some p \<and> 60000 \<le> expiresAt p - now w \<longrightarrow>
      getValidToken e w = (Inr (token p), w))"
proof (intro conjI allI impI)
  show "tokenPayload w = None \<Longrightarrow> getValidToken e w = authenticate e w"
    by (simp add: getValidToken_def)
next
  fix p
  assume "tokenPayload w = Some p \<and> expiresAt p - now w < 60000"
  then show eq: "getValidToken e w = refreshToken e w"
    by (simp add: getValidToken_def)
  show "n_login w + n_refresh w
          < n_login (snd (getValidToken e w)) + n_refresh (snd (getValidToken e w))"
    unfolding eq by (rule refreshToken_requests)
  fix t
  assume "fst (getValidToken e w) = Inr t"
  then show "\<exists>txt d. resp_token d = t
               \<and> (snd (refresh_replies e (n_refresh w)) = Response 200 txt d
                  \<or> snd (login_replies e (n_login w)) = Response 200 txt d)"
    unfolding eq by (rule refreshToken_token)
next
  fix p
  assume "tokenPayload w = Some p \<and> 60000 \<le> expiresAt p - now w"
  then show "getValidToken e w = (Inr (token p), w)"
    by (simp add: getValidToken_def)
qed

theorem getValidToken_dispatch_witness:
  "getValidToken env_example (initial 0) = authenticate env_example (initial 0)
   \<and> fst (getValidToken env_example (initial 0)) = Inr ''h.fresh.s''
   \<and> getValidToken env_example (holding ''old'' ''r0'' 30000 0)
       = refreshToken env_example (holding ''old'' ''r0'' 30000 0)
   \<and> fst (getValidToken env_example (holding ''old'' ''r0'' (- 5) 0)) = Inr ''h.fresh.s''
   \<and> n_refresh (snd (getValidToken env_example (holding ''old'' ''r0'' (- 5) 0))) = 1
   \<and> getValidToken env_example (holding ''cur'' ''r0'' 60000 0)
       = (Inr ''cur'', holding ''cur'' ''r0'' 60000 0)"
  using getValidToken_dispatch [of "initial 0" env_example]
    getValidToken_dispatch [of "holding ''old'' ''r0'' 30000 0" env_example]
    getValidToken_dispatch [of "holding ''old'' ''r0'' (- 5) 0" env_example]
    getValidToken_dispatch [of "holding ''cur'' ''r0'' 60000 0" env_example]
  by (simp add: scenario_defs auth_defs)

section \<open>C3: a refresh that the upstream refuses\<close>




section \<open>C6: the expiry of a stored credential\<close>

text \<open>
  C6 at a token that decodes and carries \<open>exp = 0\<close>: the test \<open>if (payload.exp)\<close> takes
  0 for a missing claim, and the expiry is set to now plus 15 minutes instead of
  \<open>exp * 1000 = 0\<close>.
\<close>

theorem getTokenExpiration_exp_zero:
  "jwt_decode env_example ''zero'' = Some (Payload (Some 0))
   \<and> getTokenExpiration env_example (initial 5000) ''h.zero.s'' = 5000 + 15 * 60 * 1000
   \<and> getTokenExpiration env_example (initial 5000) ''h.zero.s'' \<noteq> 0 * 1000"
  by (simp add: scenario_defs getTokenExpiration_def)

section \<open>C1: the retry loop of the executor\<close>

lemma executor_view_auth:
  "executor_view (snd (authenticate e w)) = executor_view w"
  "executor_view (snd (refreshToken e w)) = executor_view w"
  "executor_view (snd (getValidToken e w)) = executor_view w"
proof -
  have 1: "executor_view (snd (post_login e x)) = executor_view x" for x
    by (simp add: post_login_def executor_view_def retry_events_def forced_refreshes_def)
  have 2: "executor_view (snd (post_refresh e b x)) = executor_view x" for x b
    by (simp add: post_refresh_def executor_view_def retry_events_def forced_refreshes_def)
  have 3: "executor_view (storeToken e d x) = executor_view x" for x d
    by (simp add: storeToken_def executor_view_def retry_events_def forced_refreshes_def)
  have 4: "executor_view (setupAutoRefresh x) = executor_view x" for x
    by (simp add: setupAutoRefresh_def setInterval_def clearInterval_def Let_def
        executor_view_def retry_events_def forced_refreshes_def split: option.splits)
  show "executor_view (snd (authenticate e w)) = executor_view w"
    by (rule authenticate_preserves [where P = "\<lambda>x. executor_view x = executor_view w"])
      (simp_all add: 1 2 3 4)
  show "executor_view (snd (refreshToken e w)) = executor_view w"
    by (rule refreshToken_preserves [where P = "\<lambda>x. executor_view x = executor_view w"])
      (simp_all add: 1 2 3 4)
  show "executor_view (snd (getValidToken e w)) = executor_view w"
    by (rule getValidToken_preserves [where P = "\<lambda>x. executor_view x = executor_view w"])
      (simp_all add: 1 2 3 4)
qed

lemma getValidToken_requests:
  "n_login w + n_refresh w
     \<le> n_login (snd (getValidToken e w)) + n_refresh (snd (getValidToken e w))"
  by (rule getValidToken_preserves
        [where P = "\<lambda>x. n_login w + n_refresh w \<le> n_login x + n_refresh x"])
    (simp_all add: post_login_def post_refresh_def storeToken_def setupAutoRefresh_def
      setInterval_def clearInterval_def Let_def split: option.splits)

text \<open>One attempt of the executor that is answered 401 with retries left.\<close>

lemma attempt_retries:
  assumes client: "getValidToken e w = (Inr tok, w1)"
    and unauthorized: "snd (telemetry_replies e (n_telemetry w1)) = Response 401 tx d"
    and budget: "retryCount < maxRetries"
  shows "getTimeseriesWithRetry e rq retryCount w =
     (case refreshToken e
             (emit Call_refreshToken
                (delay retryDelayMs
                   (snd (client_get e tok (endpoint rq) (build_params e rq) w1)))) of
        (Inl err, w3) \<Rightarrow> (Inl err, w3)
      | (Inr new_token, w3) \<Rightarrow> getTimeseriesWithRetry e rq (Suc retryCount) w3)"
proof -
  have gv: "getAuthenticatedClient e w = (Inr tok, w1)"
    using client by (simp add: getAuthenticatedClient_def)
  define w2 where "w2 = snd (client_get e tok (endpoint rq) (build_params e rq) w1)"
  have get: "client_get e tok (endpoint rq) (build_params e rq) w1 = (Response 401 tx d, w2)"
    using unauthorized by (simp add: client_get_def w2_def)
  show ?thesis
    unfolding w2_def [symmetric]
    using gv get budget
    by (subst getTimeseriesWithRetry.simps) (simp add: case_prod_beta split: sum.splits)
qed

text \<open>One attempt of the executor that is not retried.\<close>

lemma attempt_ends:
  assumes client: "getValidToken e w = (Inr tok, w1)"
    and reply: "snd (telemetry_replies e (n_telemetry w1)) = Response st tx d"
    and final: "st \<noteq> 401 \<or> \<not> retryCount < maxRetries"
  shows "getTimeseriesWithRetry e rq retryCount w =
           (if st = 200 then Inr d
            else if st = 404
            then Inl (Error (''Entity not found: '' @ entityType rq @ ''/'' @ entityId rq
                       @ '' (404). Check entity ID and type.''))
            else if st = 400
            then Inl (Error (''Bad request: '' @
                       (if data_message d \<noteq> [] then data_message d else ''Invalid parameters'')))
            else Inl (Error (''ThingsBoard API error: '' @ toString e (Num (int st)) @ '' ''
                       @ tx @ [CHR 0x0A] @ data_json d)),
            snd (client_get e tok (endpoint rq) (build_params e rq) w1))"
proof -
  have gv: "getAuthenticatedClient e w = (Inr tok, w1)"
    using client by (simp add: getAuthenticatedClient_def)
  define w2 where "w2 = snd (client_get e tok (endpoint rq) (build_params e rq) w1)"
  have get: "client_get e tok (endpoint rq) (build_params e rq) w1 = (Response st tx d, w2)"
    using reply by (simp add: client_get_def w2_def)
  show ?thesis
    unfolding w2_def [symmetric]
    using gv get final
    by (subst getTimeseriesWithRetry.simps) auto
qed

lemma attempt_ends_view:
  assumes client: "getValidToken e w = (Inr tok, w1)"
  shows "executor_view (snd (client_get e tok path ps w1))
           = (Suc (n_telemetry w), retry_events w, forced_refreshes w)"
    and "n_login w + n_refresh w
           \<le> n_login (snd (client_get e tok path ps w1))
               + n_refresh (snd (client_get e tok path ps w1))"
proof -
  have v1: "executor_view w1 = executor_view w"
    using executor_view_auth(3) [of e w] client by simp
  then show "executor_view (snd (client_get e tok path ps w1))
           = (Suc (n_telemetry w), retry_events w, forced_refreshes w)"
    by (simp add: client_get_def executor_view_def retry_events_def forced_refreshes_def)
  show "n_login w + n_refresh w
           \<le> n_login (snd (client_get e tok path ps w1))
               + n_refresh (snd (client_get e tok path ps w1))"
    using getValidToken_requests [of w e] client by (simp add: client_get_def)
qed

text \<open>What \<open>k\<close> healed rounds add to the state, and where they leave the executor.\<close>

lemma healed_round:
  assumes "healed_rounds (Suc k) e rq w = Some wk"
  obtains tok w1 tx d t w3 where
    "getValidToken e w = (Inr tok, w1)"
    "snd (telemetry_replies e (n_telemetry w1)) = Response 401 tx d"
    "refreshToken e
       (emit Call_refreshToken
          (delay retryDelayMs (snd (client_get e tok (endpoint rq) (build_params e rq) w1))))
     = (Inr t, w3)"
    "healed_rounds k e rq w3 = Some wk"
  using assms
  by (auto simp: client_get_def split: prod.splits sum.splits reply.splits if_splits)

lemma healed_rounds_view:
  "healed_rounds k e rq w = Some wk \<Longrightarrow>
   n_telemetry wk = n_telemetry w + k
   \<and> retry_events wk
       = retry_events w @ concat (replicate k [Delay retryDelayMs, Call_refreshToken])
   \<and> forced_refreshes wk = forced_refreshes w + k
   \<and> n_login w + n_refresh w + k \<le> n_login wk + n_refresh wk"
proof (induction k arbitrary: w)
  case 0
  then show ?case by simp
next
  case (Suc k)
  from Suc.prems obtain tok w1 tx d t w3 where
    client: "getValidToken e w = (Inr tok, w1)"
    and rf: "refreshToken e
       (emit Call_refreshToken
          (delay retryDelayMs (snd (client_get e tok (endpoint rq) (build_params e rq) w1))))
     = (Inr t, w3)"
    and rest: "healed_rounds k e rq w3 = Some wk"
    by (rule healed_round)
  define w2 where "w2 = snd (client_get e tok (endpoint rq) (build_params e rq) w1)"
  define wr where "wr = emit Call_refreshToken (delay retryDelayMs w2)"
  have v2: "executor_view w2 = (Suc (n_telemetry w), retry_events w, forced_refreshes w)"
    and r2: "n_login w + n_refresh w \<le> n_login w2 + n_refresh w2"
    unfolding w2_def by (rule attempt_ends_view [OF client])+
  have vr: "executor_view wr
      = (Suc (n_telemetry w), retry_events w @ [Delay retryDelayMs, Call_refreshToken],
         Suc (forced_refreshes w))"
    using v2
    by (simp add: wr_def emit_def delay_def executor_view_def retry_events_def
        forced_refreshes_def)
  have rr: "n_login w + n_refresh w \<le> n_login wr + n_refresh wr"
    using r2 by (simp add: wr_def emit_def delay_def)
  have w3: "w3 = snd (refreshToken e wr)"
    using rf by (simp add: wr_def w2_def)
  have v3: "executor_view w3 = executor_view wr"
    unfolding w3 by (rule executor_view_auth)
  have r3: "n_login w + n_refresh w < n_login w3 + n_refresh w3"
    using refreshToken_requests [of wr e] rr unfolding w3 by simp
  show ?case
    using Suc.IH [OF rest] v3 vr r3 by (simp add: executor_view_def)
qed

lemma healed_rounds_run:
  "healed_rounds k e rq w = Some wk \<Longrightarrow> retryCount + k \<le> maxRetries \<Longrightarrow>
   getTimeseriesWithRetry e rq retryCount w = getTimeseriesWithRetry e rq (retryCount + k) wk"
proof (induction k arbitrary: w retryCount)
  case 0
  then show ?case by simp
next
  case (Suc k)
  from Suc.prems(1) obtain tok w1 tx d t w3 where
    client: "getValidToken e w = (Inr tok, w1)"
    and unauthorized: "snd (telemetry_replies e (n_telemetry w1)) = Response 401 tx d"
    and rf: "refreshToken e
       (emit Call_refreshToken
          (delay retryDelayMs (snd (client_get e tok (endpoint rq) (build_params e rq) w1))))
     = (Inr t, w3)"
    and rest: "healed_rounds k e rq w3 = Some wk"
    by (rule healed_round)
  have budget: "retryCount < maxRetries"
    using Suc.prems(2) by simp
  have "getTimeseriesWithRetry e rq retryCount w
          = getTimeseriesWithRetry e rq (Suc retryCount) w3"
    unfolding attempt_retries [OF client unauthorized budget] using rf by simp
  also have "\<dots> = getTimeseriesWithRetry e rq (Suc retryCount + k) wk"
    using Suc.prems(2) by (intro Suc.IH [OF rest]) simp
  finally show ?case by simp
qed

lemma forced_refreshes_bounded:
  "forced_refreshes (snd (getTimeseriesWithRetry e rq retryCount w))
     \<le> forced_refreshes w + (maxRetries - retryCount)"
proof (induction e rq retryCount w rule: getTimeseriesWithRetry.induct)
  case (1 e rq retryCount w)
  obtain r1 w1 where gv: "getAuthenticatedClient e w = (r1, w1)"
    by (cases "getAuthenticatedClient e w")
  have v1: "executor_view w1 = executor_view w"
    using gv executor_view_auth(3) [of e w] by (simp add: getAuthenticatedClient_def)
  show ?case
  proof (cases r1)
    case (Inl err)
    then show ?thesis
      using gv v1 by (subst getTimeseriesWithRetry.simps) (simp add: executor_view_def)
  next
    case (Inr c)
    obtain rep w2 where get: "client_get e c (endpoint rq) (build_params e rq) w1 = (rep, w2)"
      by (cases "client_get e c (endpoint rq) (build_params e rq) w1")
    have v2: "forced_refreshes w2 = forced_refreshes w"
      using get v1 by (auto simp: client_get_def executor_view_def forced_refreshes_def)
    show ?thesis
    proof (cases rep)
      case (Rejected m)
      then show ?thesis
        using gv Inr get v2 by (subst getTimeseriesWithRetry.simps) simp
    next
      case (Response st tx d)
      show ?thesis
      proof (cases "st \<noteq> 200 \<and> st = 401 \<and> retryCount < maxRetries")
        case False
        then show ?thesis
          using gv Inr get Response v2 by (subst getTimeseriesWithRetry.simps) auto
      next
        case True
        then have budget: "retryCount < maxRetries"
          by simp
        obtain r3 w3 where
          rf: "refreshToken e (emit Call_refreshToken (delay retryDelayMs w2)) = (r3, w3)"
          by (cases "refreshToken e (emit Call_refreshToken (delay retryDelayMs w2))")
        have v3: "forced_refreshes w3 = Suc (forced_refreshes w)"
          using rf v2 executor_view_auth(2) [of e "emit Call_refreshToken (delay retryDelayMs w2)"]
          by (simp add: executor_view_def emit_def delay_def forced_refreshes_def)
        show ?thesis
        proof (cases r3)
          case (Inl err)
          have "snd (getTimeseriesWithRetry e rq retryCount w) = w3"
            using gv \<open>r1 = Inr c\<close> get Response True rf Inl
            by (subst getTimeseriesWithRetry.simps) simp
          then have "forced_refreshes (snd (getTimeseriesWithRetry e rq retryCount w))
                  = Suc (forced_refreshes w)"
            using v3 by simp
          then show ?thesis
            using budget by arith
        next
          case (Inr t)
          have "forced_refreshes (snd (getTimeseriesWithRetry e rq (retryCount + 1) w3))
                  \<le> forced_refreshes w3 + (maxRetries - (retryCount + 1))"
            using "1.IH" [OF gv [symmetric] \<open>r1 = Inr c\<close> get [symmetric] Response _ _
                rf [symmetric] Inr] True
            by simp
          moreover have "getTimeseriesWithRetry e rq retryCount w
                  = getTimeseriesWithRetry e rq (retryCount + 1) w3"
            using gv \<open>r1 = Inr c\<close> get Response True rf Inr
            by (subst getTimeseriesWithRetry.simps) simp
          ultimately have "forced_refreshes (snd (getTimeseriesWithRetry e rq retryCount w))
                  \<le> Suc (forced_refreshes w) + (maxRetries - (retryCount + 1))"
            using v3 by simp
          then show ?thesis
            using budget by arith
        qed
      qed
    qed
  qed
qed

text \<open>
  C1, as the code has it. A 401 with the retry count below 3 makes the executor first wait
  the 1000 ms back-off and then call \<open>refreshToken()\<close> once; a failure of that call is the
  failure of the query, and after its success the executor starts again from
  \<open>getValidToken()\<close> with the retry count incremented, so the next query carries the token
  obtained then. One query forces at most 3 refreshes, on every upstream. After \<open>k \<le> 3\<close>
  such rounds, a reply with any status other than 401, or a 401 when \<open>k = 3\<close>, ends the
  call: a 200 returns the body it carries, every other status is the error of that reply;
  the call has then made exactly \<open>k\<close> back-offs, each followed by its forced refresh, and
  \<open>k + 1\<close> queries, and at least \<open>k\<close> login or refresh requests went upstream. The
  refreshes that \<open>getValidToken\<close> makes by itself are not counted among the forced ones.
\<close>

theorem getTimeseries_self_heal:
  "forced_refreshes (snd (getTimeseries e rq w)) \<le> forced_refreshes w + 3
   \<and> (\<forall>retryCount tok w1 tx d.
        retryCount < 3 \<and> getValidToken e w = (Inr tok, w1)
        \<and> snd (telemetry_replies e (n_telemetry w1)) = Response 401 tx d \<longrightarrow>
        getTimeseriesWithRetry e rq retryCount w =
          (case refreshToken e
                  (emit Call_refreshToken
                     (delay 1000
                        (snd (client_get e tok (endpoint rq) (build_params e rq) w1)))) of
             (Inl err, w3) \<Rightarrow> (Inl err, w3)
           | (Inr new_token, w3) \<Rightarrow> getTimeseriesWithRetry e rq (Suc retryCount) w3))
   \<and> (\<forall>k wk tok w1 st tx d.
        k \<le> 3 \<and> healed_rounds k e rq w = Some wk \<and> getValidToken e wk = (Inr tok, w1)
        \<and> snd (telemetry_replies e (n_telemetry w1)) = Response st tx d
        \<and> (st = 401 \<longrightarrow> k = 3) \<longrightarrow>
        getTimeseries e rq w =
          (if st = 200 then Inr d
           else if st = 404
           then Inl (Error (''Entity not found: '' @ entityType rq @ ''/'' @ entityId rq
                      @ '' (404). Check entity ID and type.''))
           else if st = 400
           then Inl (Error (''Bad request: '' @
                      (if data_message d \<noteq> [] then data_message d else ''Invalid parameters'')))
           else Inl (Error (''ThingsBoard API error: '' @ toString e (Num (int st)) @ '' ''
                      @ tx @ [CHR 0x0A] @ data_json d)),
           snd (client_get e tok (endpoint rq) (build_params e rq) w1))
        \<and> retry_events (snd (getTimeseries e rq w))
            = retry_events w @ concat (replicate k [Delay 1000, Call_refreshToken])
        \<and> forced_refreshes (snd (getTimeseries e rq w)) = forced_refreshes w + k
        \<and> n_telemetry (snd (getTimeseries e rq w)) = n_telemetry w + k + 1
        \<and> n_login w + n_refresh w + k
            \<le> n_login (snd (getTimeseries e rq w)) + n_refresh (snd (getTimeseries e rq w)))"
proof (intro conjI allI impI)
  show "forced_refreshes (snd (getTimeseries e rq w)) \<le> forced_refreshes w + 3"
    using forced_refreshes_bounded [of e rq 0 w] by (simp add: getTimeseries_def maxRetries_def)
next
  fix retryCount tok w1 tx d
  assume h: "(retryCount::nat) < 3 \<and> getValidToken e w = (Inr tok, w1)
        \<and> snd (telemetry_replies e (n_telemetry w1)) = Response 401 tx d"
  then have client: "getValidToken e w = (Inr tok, w1)"
    and unauthorized: "snd (telemetry_replies e (n_telemetry w1)) = Response 401 tx d"
    and budget: "retryCount < maxRetries"
    by (simp_all add: maxRetries_def)
  show "getTimeseriesWithRetry e rq retryCount w =
          (case refreshToken e
                  (emit Call_refreshToken
                     (delay 1000
                        (snd (client_get e tok (endpoint rq) (build_params e rq) w1)))) of
             (Inl err, w3) \<Rightarrow> (Inl err, w3)
           | (Inr new_token, w3) \<Rightarrow> getTimeseriesWithRetry e rq (Suc retryCount) w3)"
    using attempt_retries [OF client unauthorized budget, of rq] by (simp add: retryDelayMs_def)
next
  fix k wk tok w1 st tx d
  assume h: "k \<le> 3 \<and> healed_rounds k e rq w = Some wk \<and> getValidToken e wk = (Inr tok, w1)
        \<and> snd (telemetry_replies e (n_telemetry w1)) = Response st tx d
        \<and> (st = 401 \<longrightarrow> k = 3)"
  then have rounds: "healed_rounds k e rq w = Some wk"
    and client: "getValidToken e wk = (Inr tok, w1)"
    and reply: "snd (telemetry_replies e (n_telemetry w1)) = Response st tx d"
    and final: "st \<noteq> 401 \<or> \<not> k < maxRetries"
    and budget: "0 + k \<le> maxRetries"
    by (auto simp: maxRetries_def)
  define w2 where "w2 = snd (client_get e tok (endpoint rq) (build_params e rq) w1)"
  have whole: "getTimeseries e rq w = getTimeseriesWithRetry e rq k wk"
    using healed_rounds_run [OF rounds budget] by (simp add: getTimeseries_def)
  show result: "getTimeseries e rq w =
          (if st = 200 then Inr d
           else if st = 404
           then Inl (Error (''Entity not found: '' @ entityType rq @ ''/'' @ entityId rq
                      @ '' (404). Check entity ID and type.''))
           else if st = 400
           then Inl (Error (''Bad request: '' @
                      (if data_message d \<noteq> [] then data_message d else ''Invalid parameters'')))
           else Inl (Error (''ThingsBoard API error: '' @ toString e (Num (int st)) @ '' ''
                      @ tx @ [CHR 0x0A] @ data_json d)),
           snd (client_get e tok (endpoint rq) (build_params e rq) w1))"
    unfolding whole by (rule attempt_ends [OF client reply final])
  have state: "snd (getTimeseries e rq w) = w2"
    unfolding result w2_def by simp
  have v2: "executor_view w2 = (Suc (n_telemetry wk), retry_events wk, forced_refreshes wk)"
    and r2: "n_login wk + n_refresh wk \<le> n_login w2 + n_refresh w2"
    unfolding w2_def by (rule attempt_ends_view [OF client])+
  note vk = healed_rounds_view [OF rounds]
  show "retry_events (snd (getTimeseries e rq w))
            = retry_events w @ concat (replicate k [Delay 1000, Call_refreshToken])"
    unfolding state using v2 vk by (simp add: executor_view_def retryDelayMs_def)
  show "forced_refreshes (snd (getTimeseries e rq w)) = forced_refreshes w + k"
    unfolding state using v2 vk by (simp add: executor_view_def)
  show "n_telemetry (snd (getTimeseries e rq w)) = n_telemetry w + k + 1"
    unfolding state using v2 vk by (simp add: executor_view_def)
  show "n_login w + n_refresh w + k
            \<le> n_login (snd (getTimeseries e rq w)) + n_refresh (snd (getTimeseries e rq w))"
    unfolding state using r2 vk by simp
qed

lemmas executor_defs =
  getTimeseries_def getAuthenticatedClient_def client_get_def delay_def emit_def
  maxRetries_def retryDelayMs_def retry_events_def forced_refreshes_def

theorem getTimeseries_self_heal_witness:
  "getTimeseriesWithRetry env_401_once request_example 0 (initial 0)
     = getTimeseriesWithRetry env_401_once request_example 1
         (snd (refreshToken env_401_once
                 (emit Call_refreshToken
                    (delay 1000
                       (snd (client_get env_401_once ''h.fresh.s'' (endpoint request_example)
                               (build_params env_401_once request_example)
                               (snd (getValidToken env_401_once (initial 0)))))))))
   \<and> fst (getTimeseries env_401_once request_example (initial 0)) = Inr sample_data
   \<and> retry_events (snd (getTimeseries env_401_once request_example (initial 0)))
       = [Delay 1000, Call_refreshToken]
   \<and> n_telemetry (snd (getTimeseries env_401_once request_example (initial 0))) = 2
   \<and> fst (getTimeseries env_401_thrice request_example (initial 0)) = Inr sample_data
   \<and> forced_refreshes (snd (getTimeseries env_401_thrice request_example (initial 0))) = 3
   \<and> n_telemetry (snd (getTimeseries env_401_thrice request_example (initial 0))) = 4
   \<and> fst (getTimeseries env_always_401 request_example (initial 0))
       = Inl (Error (''ThingsBoard API error: 401 Unauthorized'' @ [CHR 0x0A] @ ''{...}''))
   \<and> forced_refreshes (snd (getTimeseries env_always_401 request_example (initial 0))) = 3
   \<and> n_telemetry (snd (getTimeseries env_always_401 request_example (initial 0))) = 4
   \<and> 3 \<le> n_login (snd (getTimeseries env_always_401 request_example (initial 0)))
          + n_refresh (snd (getTimeseries env_always_401 request_example (initial 0)))"
proof -
  note defs = executor_defs env_401_once_def env_401_thrice_def env_always_401_def
    scenario_defs auth_defs error_data_def
  have start: "retry_events (initial 0) = []" "forced_refreshes (initial 0) = 0"
    "n_telemetry (initial 0) = 0" "n_login (initial 0) = 0" "n_refresh (initial 0) = 0"
    by (simp_all add: initial_def retry_events_def forced_refreshes_def)
  have first: "(0::nat) < 3
      \<and> getValidToken env_401_once (initial 0)
          = (Inr ''h.fresh.s'', snd (getValidToken env_401_once (initial 0)))
      \<and> snd (telemetry_replies env_401_once
                (n_telemetry (snd (getValidToken env_401_once (initial 0)))))
          = Response 401 ''Unauthorized'' (error_data ''Token has expired'')"
    by (simp add: defs)
  note step = getTimeseries_self_heal [THEN conjunct2, THEN conjunct1, rule_format, OF first,
      where rq = request_example]
  have renewed: "fst (refreshToken env_401_once
                 (emit Call_refreshToken
                    (delay 1000
                       (snd (client_get env_401_once ''h.fresh.s'' (endpoint request_example)
                               (build_params env_401_once request_example)
                               (snd (getValidToken env_401_once (initial 0))))))))
                 = Inr ''h.fresh.s''"
    by (simp add: defs)
  have retried: "getTimeseriesWithRetry env_401_once request_example 0 (initial 0)
     = getTimeseriesWithRetry env_401_once request_example 1
         (snd (refreshToken env_401_once
                 (emit Call_refreshToken
                    (delay 1000
                       (snd (client_get env_401_once ''h.fresh.s'' (endpoint request_example)
                               (build_params env_401_once request_example)
                               (snd (getValidToken env_401_once (initial 0)))))))))"
    using step renewed by (simp add: case_prod_beta)
  define wa where "wa = the (healed_rounds (Suc 0) env_401_once request_example (initial 0))"
  have once: "Suc 0 \<le> 3
      \<and> healed_rounds (Suc 0) env_401_once request_example (initial 0) = Some wa
      \<and> getValidToken env_401_once wa = (Inr ''h.fresh.s'', wa)
      \<and> snd (telemetry_replies env_401_once (n_telemetry wa)) = Response 200 ''OK'' sample_data
      \<and> ((200::nat) = 401 \<longrightarrow> Suc 0 = 3)"
    unfolding wa_def by (simp add: defs)
  note healed = getTimeseries_self_heal [THEN conjunct2, THEN conjunct2, rule_format, OF once]
  define wb where
    "wb = the (healed_rounds (Suc (Suc (Suc 0))) env_401_thrice request_example (initial 0))"
  have thrice: "Suc (Suc (Suc 0)) \<le> 3
      \<and> healed_rounds (Suc (Suc (Suc 0))) env_401_thrice request_example (initial 0) = Some wb
      \<and> getValidToken env_401_thrice wb = (Inr ''h.fresh.s'', wb)
      \<and> snd (telemetry_replies env_401_thrice (n_telemetry wb))
          = Response 200 ''OK'' sample_data
      \<and> ((200::nat) = 401 \<longrightarrow> Suc (Suc (Suc 0)) = 3)"
    unfolding wb_def by (simp add: defs)
  note late = getTimeseries_self_heal [THEN conjunct2, THEN conjunct2, rule_format, OF thrice]
  define wc where
    "wc = the (healed_rounds (Suc (Suc (Suc 0))) env_always_401 request_example (initial 0))"
  have always: "Suc (Suc (Suc 0)) \<le> 3
      \<and> healed_rounds (Suc (Suc (Suc 0))) env_always_401 request_example (initial 0) = Some wc
      \<and> getValidToken env_always_401 wc = (Inr ''h.fresh.s'', wc)
      \<and> snd (telemetry_replies env_always_401 (n_telemetry wc))
          = Response 401 ''Unauthorized'' (error_data ''Token has expired'')
      \<and> ((401::nat) = 401 \<longrightarrow> Suc (Suc (Suc 0)) = 3)"
    unfolding wc_def by (simp add: defs)
  note exhausted =
    getTimeseries_self_heal [THEN conjunct2, THEN conjunct2, rule_format, OF always]
  have results:
    "fst (getTimeseries env_401_once request_example (initial 0)) = Inr sample_data"
    "fst (getTimeseries env_401_thrice request_example (initial 0)) = Inr sample_data"
    "fst (getTimeseries env_always_401 request_example (initial 0))
       = Inl (Error (''ThingsBoard API error: 401 Unauthorized'' @ [CHR 0x0A] @ ''{...}''))"
    using healed [THEN conjunct1] late [THEN conjunct1] exhausted [THEN conjunct1]
    by (simp_all add: number_defs error_data_def)
  show ?thesis
    using retried healed [THEN conjunct2] late [THEN conjunct2] exhausted [THEN conjunct2]
    by (simp add: start results)
qed

text \<open>
  The claim as stated fails on a credential with 30 s left and an upstream that answers 401
  to every query: \<open>getValidToken\<close> refreshes before the first query, the executor forces
  three more refreshes, so four refresh requests go upstream, not three; and each forced
  refresh comes after its back-off, not before it.
\<close>

theorem getTimeseries_refresh_counterexample:
  "fst (getTimeseries env_always_401 request_example (holding ''old'' ''r0'' 30000 0))
     = Inl (Error (''ThingsBoard API error: 401 Unauthorized'' @ [CHR 0x0A] @ ''{...}''))
   \<and> n_refresh (snd (getTimeseries env_always_401 request_example
                      (holding ''old'' ''r0'' 30000 0))) = 4
   \<and> trace (snd (getTimeseries env_always_401 request_example
                    (holding ''old'' ''r0'' 30000 0)))
       = [Post_refresh ''r0'',
          Get_timeseries ''h.fresh.s'' (endpoint request_example)
            (build_params env_always_401 request_example),
          Delay 1000, Call_refreshToken, Post_refresh ''r2'',
          Get_timeseries ''h.fresh.s'' (endpoint request_example)
            (build_params env_always_401 request_example),
          Delay 1000, Call_refreshToken, Post_refresh ''r2'',
          Get_timeseries ''h.fresh.s'' (endpoint request_example)
            (build_params env_always_401 request_example),
          Delay 1000, Call_refreshToken, Post_refresh ''r2'',
          Get_timeseries ''h.fresh.s'' (endpoint request_example)
            (build_params env_always_401 request_example)]"
  by (simp add: getTimeseriesWithRetry.simps executor_defs env_always_401_def scenario_defs
      auth_defs error_data_def number_defs)

section \<open>What the executor, the device service and the route leave unchanged\<close>

lemma getTimeseriesWithRetry_preserves:
  assumes login: "\<And>w. P w \<Longrightarrow> P (snd (post_login e w))"
    and refresh: "\<And>w b. P w \<Longrightarrow> P (snd (post_refresh e b w))"
    and store: "\<And>w d. P w \<Longrightarrow> P (storeToken e d w)"
    and arm: "\<And>w. P w \<Longrightarrow> P (setupAutoRefresh w)"
    and query: "\<And>w c path ps. P w \<Longrightarrow> P (snd (client_get e c path ps w))"
    and wait: "\<And>w ms. P w \<Longrightarrow> P (delay ms w)"
    and mark: "\<And>w ev. P w \<Longrightarrow> P (emit ev w)"
  shows "P w \<Longrightarrow> P (snd (getTimeseriesWithRetry e rq retryCount w))"
proof (induction "maxRetries - retryCount" arbitrary: retryCount w)
  case 0
  have p1: "P w1" if "getAuthenticatedClient e w = (r1, w1)" for r1 w1
    using that getValidToken_preserves [of P e, OF login refresh store arm "0.prems"]
    by (simp add: getAuthenticatedClient_def)
  have p2: "P w2" if "client_get e c path ps w1 = (rep, w2)" "P w1" for c path ps rep w1 w2
    using query [OF that(2), of c path ps] that(1) by simp
  show ?case
    using "0.hyps"
    by (subst getTimeseriesWithRetry.simps)
      (auto split: sum.splits prod.splits reply.splits dest: p1 p2)
next
  case (Suc n)
  have p1: "P w1" if "getAuthenticatedClient e w = (r1, w1)" for r1 w1
    using that getValidToken_preserves [of P e, OF login refresh store arm Suc.prems]
    by (simp add: getAuthenticatedClient_def)
  have p2: "P w2" if "client_get e c path ps w1 = (rep, w2)" "P w1" for c path ps rep w1 w2
    using query [OF that(2), of c path ps] that(1) by simp
  have p3: "P w3"
    if "refreshToken e (emit Call_refreshToken (delay retryDelayMs w2)) = (r3, w3)" "P w2"
    for r3 w2 w3
    using refreshToken_preserves [of P e, OF login refresh store arm mark [OF wait [OF that(2)]],
        of Call_refreshToken retryDelayMs] that(1)
    by simp
  have again: "P (snd (getTimeseriesWithRetry e rq (Suc retryCount) w3))" if "P w3" for w3
    using Suc.hyps(1) [of "Suc retryCount" w3] Suc.hyps(2) that by simp
  show ?case
    by (subst getTimeseriesWithRetry.simps)
      (auto split: sum.splits prod.splits reply.splits dest: p1 p2 p3 intro!: again)
qed

lemma devices_preserve:
  assumes fetch: "\<And>w. P w \<Longrightarrow> P (snd (get_devices e w))"
    and cache: "\<And>w ds t. P w \<Longrightarrow> P (w\<lparr>devicesCache := Some ds, cacheTimestamp := t\<rparr>)"
  shows getDevices_preserves: "P w \<Longrightarrow> P (snd (getDevices e forceRefresh w))"
    and validateDevice_preserves: "P w \<Longrightarrow> P (snd (validateDevice e uuid w))"
proof -
  have t: "P x \<Longrightarrow> P (snd (getDevices_try e f x))" for x f
    using fetch [of x] cache
    by (auto simp: getDevices_try_def split: option.splits prod.splits reply.splits
        directory_payload.splits if_splits)
  show g: "P x \<Longrightarrow> P (snd (getDevices e f x))" for x f
    using t [of x f]
    by (auto simp: getDevices_def split: prod.splits sum.splits option.splits)
  have u: "P x \<Longrightarrow> P (snd (getDeviceByUUID e uuid f x))" for x f
    using g [of x f]
    by (auto simp: getDeviceByUUID_def split: prod.splits sum.splits option.splits)
  show "P w \<Longrightarrow> P (snd (validateDevice e uuid w))"
    using u [of w False] u [of "snd (getDeviceByUUID e uuid False w)" True]
    by (auto simp: validateDevice_def split: prod.splits sum.splits)
qed



section \<open>C5: the renewal timer\<close>

















section \<open>C4: callers that overlap\<close>

text \<open>The split at the \<open>await\<close>s agrees with the methods run to their end.\<close>

lemma authenticate_split:
  "authenticate_start w = (c, w') \<Longrightarrow> await_all (Suc n) e c w' = Some (authenticate e w)"
  by (auto simp: authenticate_start_def authenticate_def post_login_def Let_def
      split: reply.splits option.splits)

lemma refreshToken_split:
  "refreshToken_start w = (c, w') \<Longrightarrow>
   await_all (Suc (Suc n)) e c w' = Some (refreshToken e w)"
proof (cases "tokenPayload w")
  case None
  assume "refreshToken_start w = (c, w')"
  with None show ?thesis
    by (simp add: refreshToken_start_def refreshToken_def authenticate_split)
next
  case (Some p)
  assume started: "refreshToken_start w = (c, w')"
  show ?thesis
  proof (cases "refresh_token p = []")
    case True
    with Some started show ?thesis
      by (simp add: refreshToken_start_def refreshToken_def authenticate_split)
  next
    case False
    have again: "(case authenticate_start x of (c1, x1) \<Rightarrow> await_all (Suc n) e c1 x1)
        = Some (authenticate e x)" for x
      using authenticate_split [of x "fst (authenticate_start x)" "snd (authenticate_start x)"
          n e]
      by (simp add: case_prod_beta)
    show ?thesis
      using Some False started
      unfolding refreshToken_by_case [OF Some False]
      by (auto simp: refreshToken_start_def post_refresh_def Let_def again
          log_expiry_storeToken
          split: reply.splits)
  qed
qed

lemma getValidToken_split:
  "getValidToken_start w = (c, w') \<Longrightarrow>
   await_all (Suc (Suc n)) e c w' = Some (getValidToken e w)"
  by (auto simp: getValidToken_start_def getValidToken_def refreshToken_split
      authenticate_split split: option.splits if_splits)

lemma authenticate_stores:
  "fst (authenticate e w) = Inr tk \<Longrightarrow>
   \<exists>p. tokenPayload (snd (authenticate e w)) = Some p \<and> token p = tk"
  by (auto simp: authenticate_def post_login_def storeToken_def log_expiry_def
      setupAutoRefresh_def setInterval_def clearInterval_def Let_def
      split: reply.splits if_splits option.splits)

lemma refreshToken_stores:
  assumes "fst (refreshToken e w) = Inr tk"
  shows "\<exists>p. tokenPayload (snd (refreshToken e w)) = Some p \<and> token p = tk"
proof (cases "tokenPayload w")
  case None
  with assms show ?thesis using authenticate_stores [of e w tk] by (simp add: refreshToken_def)
next
  case (Some p)
  show ?thesis
  proof (cases "refresh_token p = []")
    case True
    with Some assms show ?thesis
      using authenticate_stores [of e w tk] by (simp add: refreshToken_def)
  next
    case False
    have stored: "fst (authenticate e (storeToken e d x)) = Inr tk \<Longrightarrow>
        \<exists>p. tokenPayload (snd (authenticate e (storeToken e d x))) = Some p \<and> token p = tk"
      for d x
      by (rule authenticate_stores)
    show ?thesis
      using assms authenticate_stores [of e "snd (post_refresh e (refresh_token p) w)" tk]
        stored
      unfolding refreshToken_by_case [OF Some False]
      by (auto simp: storeToken_def split: reply.splits if_splits)
  qed
qed

lemma getValidToken_stores:
  assumes "fst (getValidToken e w) = Inr tk"
  shows "\<exists>p. tokenPayload (snd (getValidToken e w)) = Some p \<and> token p = tk"
  using assms authenticate_stores [of e w tk] refreshToken_stores [of e w tk]
  by (auto simp: getValidToken_def split: option.splits if_splits)

text \<open>
  C4, as the code has it. The service has no guard for a renewal in flight. A caller of
  \<open>getValidToken\<close> that finds the credential within 60000 ms of its expiry issues a refresh
  request and suspends; a second caller that runs before the reply arrives finds the same
  credential and issues a second refresh request. A renewal is shared only once it has
  completed: when a call of \<open>getValidToken\<close> has returned a token and left a credential
  with at least 60000 ms, the next caller gets that token at once, with no request and no
  change of state. The call split at its \<open>await\<close>s and run without interleaving is the
  \<open>getValidToken\<close> of the sections above.
\<close>

theorem overlapping_callers:
  "(\<forall>p. tokenPayload w = Some p \<and> expiresAt p - now w < 60000 \<and> refresh_token p \<noteq> [] \<longrightarrow>
      fst (getValidToken_start w) = Suspended (Await_refresh (n_refresh w))
      \<and> fst (getValidToken_start (snd (getValidToken_start w)))
          = Suspended (Await_refresh (Suc (n_refresh w)))
      \<and> trace (snd (getValidToken_start (snd (getValidToken_start w))))
          = trace w @ [Post_refresh (refresh_token p), Post_refresh (refresh_token p)])
   \<and> (\<forall>tk p'. fst (getValidToken e w) = Inr tk
          \<and> tokenPayload (snd (getValidToken e w)) = Some p'
          \<and> 60000 \<le> expiresAt p' - now (snd (getValidToken e w)) \<longrightarrow>
        token p' = tk
        \<and> getValidToken_start (snd (getValidToken e w))
            = (Settled (Inr tk), snd (getValidToken e w)))
   \<and> await_all 2 e (fst (getValidToken_start w)) (snd (getValidToken_start w))
       = Some (getValidToken e w)"
proof (intro conjI allI impI)
  fix p
  assume h: "tokenPayload w = Some p \<and> expiresAt p - now w < 60000 \<and> refresh_token p \<noteq> []"
  then show "fst (getValidToken_start w) = Suspended (Await_refresh (n_refresh w))"
    by (simp add: getValidToken_start_def refreshToken_start_def)
  from h show "fst (getValidToken_start (snd (getValidToken_start w)))
          = Suspended (Await_refresh (Suc (n_refresh w)))"
    by (simp add: getValidToken_start_def refreshToken_start_def)
  from h show "trace (snd (getValidToken_start (snd (getValidToken_start w))))
          = trace w @ [Post_refresh (refresh_token p), Post_refresh (refresh_token p)]"
    by (simp add: getValidToken_start_def refreshToken_start_def)
next
  fix tk p'
  assume h: "fst (getValidToken e w) = Inr tk
          \<and> tokenPayload (snd (getValidToken e w)) = Some p'
          \<and> 60000 \<le> expiresAt p' - now (snd (getValidToken e w))"
  then show same: "token p' = tk"
    using getValidToken_stores [of e w tk] by auto
  show "getValidToken_start (snd (getValidToken e w))
            = (Settled (Inr tk), snd (getValidToken e w))"
    using h same by (simp add: getValidToken_start_def)
next
  show "await_all 2 e (fst (getValidToken_start w)) (snd (getValidToken_start w))
       = Some (getValidToken e w)"
    using getValidToken_split [of w "fst (getValidToken_start w)" "snd (getValidToken_start w)" 0 e]
    by (simp add: numeral_2_eq_2)
qed

lemmas call_defs = getValidToken_start_def refreshToken_start_def authenticate_start_def

theorem overlapping_callers_witness:
  "fst (getValidToken_start (holding ''old'' ''r0'' 30000 0)) = Suspended (Await_refresh 0)
   \<and> fst (getValidToken_start (snd (getValidToken_start (holding ''old'' ''r0'' 30000 0))))
       = Suspended (Await_refresh 1)
   \<and> getValidToken_start (snd (getValidToken env_example (holding ''old'' ''r0'' 30000 0)))
       = (Settled (Inr ''h.fresh.s''),
          snd (getValidToken env_example (holding ''old'' ''r0'' 30000 0)))
   \<and> n_refresh (snd (getValidToken env_example (holding ''old'' ''r0'' 30000 0))) = 1"
proof -
  have expiring: "tokenPayload (holding ''old'' ''r0'' 30000 0)
        = Some \<lparr>token = ''old'', refresh_token = ''r0'', expiresAt = 30000\<rparr>
      \<and> expiresAt \<lparr>token = ''old'', refresh_token = ''r0'', expiresAt = 30000\<rparr>
          - now (holding ''old'' ''r0'' 30000 0) < 60000
      \<and> refresh_token \<lparr>token = ''old'', refresh_token = ''r0'', expiresAt = 30000\<rparr> \<noteq> []"
    by (simp add: scenario_defs)
  have renewed: "fst (getValidToken env_example (holding ''old'' ''r0'' 30000 0))
        = Inr ''h.fresh.s''
      \<and> tokenPayload (snd (getValidToken env_example (holding ''old'' ''r0'' 30000 0)))
        = Some \<lparr>token = ''h.fresh.s'', refresh_token = ''r2'', expiresAt = 10000000\<rparr>
      \<and> 60000 \<le> expiresAt \<lparr>token = ''h.fresh.s'', refresh_token = ''r2'', expiresAt = 10000000\<rparr>
          - now (snd (getValidToken env_example (holding ''old'' ''r0'' 30000 0)))"
    by (simp add: scenario_defs auth_defs)
  note inst = overlapping_callers [of "holding ''old'' ''r0'' 30000 0" env_example]
  note a = inst [THEN conjunct1, THEN spec, THEN mp, OF expiring]
  note b = inst [THEN conjunct2, THEN conjunct1, THEN spec, THEN spec, THEN mp, OF renewed]
  have n: "n_refresh (snd (getValidToken env_example (holding ''old'' ''r0'' 30000 0))) = 1"
    by (simp add: scenario_defs auth_defs)
  show ?thesis
    using a b n by (simp add: holding_def initial_def)
qed

text \<open>
  The claim as stated fails: two callers find the credential with 30 s left, the second
  before the first one's reply; two refresh requests go upstream, and both callers settle
  with a token.
\<close>

theorem two_refresh_calls_counterexample:
  "expiresAt \<lparr>token = ''old'', refresh_token = ''r0'', expiresAt = 30000\<rparr>
     - now (holding ''old'' ''r0'' 30000 0) < 60000
   \<and> fst (getValidToken_start (holding ''old'' ''r0'' 30000 0)) = Suspended (Await_refresh 0)
   \<and> fst (getValidToken_start (snd (getValidToken_start (holding ''old'' ''r0'' 30000 0))))
       = Suspended (Await_refresh 1)
   \<and> trace (run env_example
        [Start_getValidToken, Start_getValidToken, Resume (Await_refresh 0),
         Resume (Await_refresh 1)] (holding ''old'' ''r0'' 30000 0))
       = [Post_refresh ''r0'', Post_refresh ''r0'']
   \<and> n_refresh (run env_example
        [Start_getValidToken, Start_getValidToken, Resume (Await_refresh 0),
         Resume (Await_refresh 1)] (holding ''old'' ''r0'' 30000 0)) = 2
   \<and> fst (resume env_example (Await_refresh 1) (run env_example
        [Start_getValidToken, Start_getValidToken, Resume (Await_refresh 0)]
        (holding ''old'' ''r0'' 30000 0))) = Settled (Inr ''h.fresh.s'')"
  by (simp add: scenario_defs call_defs storeToken_def log_expiry_def valid_time_value_def
      getTokenExpiration_def)

section \<open>C10: the stale device list\<close>

lemma getDevices_try_fails:
  assumes "fetch_fails (snd (directory_replies e (n_directory w)))"
    and "devicesCache w = Some cached"
  shows "(\<exists>ds. getDevices_try e forceRefresh w = (Inr cached, w))
     \<or> (\<exists>err. fst (getDevices_try e forceRefresh w) = Inl err
           \<and> devicesCache (snd (getDevices_try e forceRefresh w)) = Some cached)"
proof (cases "\<not> forceRefresh \<and> isCacheFresh w")
  case True
  then show ?thesis using assms(2) by (simp add: getDevices_try_def)
next
  case False
  then have fetch: "(if \<not> forceRefresh \<and> isCacheFresh w then devicesCache w else None) = None"
    by auto
  show ?thesis
    using assms
    by (cases "snd (directory_replies e (n_directory w))" rule: fetch_fails.cases)
      (auto simp: getDevices_try_def fetch get_devices_def)
qed

lemma getDevices_try_cache:
  "fst (getDevices_try e forceRefresh w) = Inl err \<Longrightarrow>
   devicesCache (snd (getDevices_try e forceRefresh w)) = devicesCache w"
  by (auto simp: getDevices_try_def get_devices_def
      split: option.splits reply.splits directory_payload.splits if_splits)

lemma getDevices_cached:
  assumes "devicesCache w = Some cached"
  shows "\<exists>ds. fst (getDevices e forceRefresh w) = Inr ds
     \<and> devicesCache (snd (getDevices e forceRefresh w)) \<noteq> None"
proof (cases "fst (getDevices_try e forceRefresh w)")
  case (Inl err)
  then show ?thesis
    using getDevices_try_cache [of e forceRefresh w err] assms
    by (auto simp: getDevices_def split: prod.splits)
next
  case (Inr ds)
  have "devicesCache (snd (getDevices_try e forceRefresh w)) \<noteq> None"
    using assms Inr
    by (auto simp: getDevices_try_def get_devices_def
        split: option.splits reply.splits directory_payload.splits if_splits)
  then show ?thesis
    using Inr by (auto simp: getDevices_def split: prod.splits)
qed

lemma getDevices_success_caches:
  assumes "fst (getDevices e forceRefresh w) = Inr ds"
  shows "devicesCache (snd (getDevices e forceRefresh w)) \<noteq> None"
  using assms
  by (auto simp: getDevices_def getDevices_try_def get_devices_def
      split: prod.splits sum.splits option.splits reply.splits directory_payload.splits
      if_splits)

lemma getDevices_calls_succeed:
  "devicesCache w \<noteq> None \<Longrightarrow> \<forall>r \<in> set (getDevices_calls e calls w). \<exists>ds. r = Inr ds"
proof (induction calls arbitrary: w)
  case Nil
  then show ?case by simp
next
  case (Cons call calls)
  obtain ms forceRefresh where call: "call = (ms, forceRefresh)"
    by (cases call)
  obtain cached where "devicesCache (tick ms w) = Some cached"
    using Cons.prems by (auto simp: tick_def)
  then obtain ds where ok: "fst (getDevices e forceRefresh (tick ms w)) = Inr ds"
    and kept: "devicesCache (snd (getDevices e forceRefresh (tick ms w))) \<noteq> None"
    using getDevices_cached [of "tick ms w" cached e forceRefresh] by blast
  show ?case
    using call ok Cons.IH [OF kept]
    by (auto simp: case_prod_beta)
qed

text \<open>
  C10. When a list is cached and the fetch fails (the request is rejected, the status is not
  a success, or the payload is not an array), \<open>getDevices\<close> returns the cached list, stale
  or not, forced or not. \<open>getDevices\<close> throws only when no list is cached. So after one call
  that returned a list, every later call of \<open>getDevices\<close> returns a list, whatever the
  directory answers and however much time passes between the calls.
\<close>

theorem getDevices_stale_fallback:
  "(\<forall>cached. devicesCache w = Some cached
        \<and> fetch_fails (snd (directory_replies e (n_directory w))) \<longrightarrow>
      fst (getDevices e forceRefresh w) = Inr cached)
   \<and> (\<forall>err. fst (getDevices e forceRefresh w) = Inl err \<longrightarrow> devicesCache w = None)
   \<and> (\<forall>ds. fst (getDevices e forceRefresh w) = Inr ds \<longrightarrow>
        (\<forall>r \<in> set (getDevices_calls e calls (snd (getDevices e forceRefresh w))).
           \<exists>ds'. r = Inr ds'))"
proof (intro conjI allI impI)
  fix cached
  assume h: "devicesCache w = Some cached
        \<and> fetch_fails (snd (directory_replies e (n_directory w)))"
  show "fst (getDevices e forceRefresh w) = Inr cached"
    using getDevices_try_fails [of e w cached forceRefresh] h
    by (auto simp: getDevices_def split: prod.splits)
next
  fix err
  assume failed: "fst (getDevices e forceRefresh w) = Inl err"
  show "devicesCache w = None"
  proof (rule ccontr)
    assume "devicesCache w \<noteq> None"
    then obtain cached where "devicesCache w = Some cached" by auto
    then show False
      using getDevices_cached [of w cached e forceRefresh] failed by auto
  qed
next
  fix ds
  assume "fst (getDevices e forceRefresh w) = Inr ds"
  then have "devicesCache (snd (getDevices e forceRefresh w)) \<noteq> None"
    by (rule getDevices_success_caches)
  then show "\<forall>r \<in> set (getDevices_calls e calls (snd (getDevices e forceRefresh w))).
           \<exists>ds'. r = Inr ds'"
    by (rule getDevices_calls_succeed)
qed

lemmas device_defs =
  getDevices_def getDevices_try_def get_devices_def isCacheFresh_def cacheDuration_def
  getDeviceByUUID_def validateDevice_def baseUrl_def tick_def

theorem getDevices_stale_fallback_witness:
  "fst (getDevices env_directory_down False (initial 0)) = Inr [device_example]
   \<and> getDevices_calls env_directory_down [(400000, False), (0, True)]
        (snd (getDevices env_directory_down False (initial 0)))
       = [Inr [device_example], Inr [device_example]]
   \<and> fst (getDevices (env_example\<lparr>directory_replies := (\<lambda>k. (10, Rejected ''timeout''))\<rparr>)
             False (initial 0))
       = Inl (Error
           ''Failed to fetch devices from http://localhost:4000/customer/devices: timeout'')
   \<and> devicesCache (initial 0) = None"
  using getDevices_stale_fallback [of "snd (getDevices env_directory_down False (initial 0))"
      env_directory_down True "[]"]
    getDevices_stale_fallback [of "initial 0" env_directory_down False
      "[(400000, False), (0, True)]"]
    getDevices_stale_fallback [of "initial 0"
      "env_example\<lparr>directory_replies := (\<lambda>k. (10, Rejected ''timeout''))\<rparr>" False "[]"]
  by (simp add: env_directory_down_def scenario_defs device_defs)

section \<open>C7: the status of a failed query\<close>

lemma startsWith_append: "startsWith (sub @ rest) sub"
  by (induction sub) simp_all

lemma includesStr_append: "includesStr (before @ sub @ rest) sub"
proof (induction before)
  case Nil
  show ?case
    using startsWith_append [of sub rest] by (cases "sub @ rest") auto
next
  case (Cons x before)
  then show ?case by simp
qed

lemma not_found_404:
  "route_catch (Error (''Entity not found: '' @ ty @ ''/'' @ ident
      @ '' (404). Check entity ID and type.''))
   = Failure_json 404 (''Entity not found: '' @ ty @ ''/'' @ ident
      @ '' (404). Check entity ID and type.'')"
  using includesStr_append [of "''Entity ''" "''not found''"
      "'': '' @ ty @ ''/'' @ ident @ '' (404). Check entity ID and type.''"]
  by (simp add: route_catch_def)

lemma route_catch_code:
  "route_catch err = Failure_json code msg \<Longrightarrow> code = 404 \<or> code = 502"
  by (auto simp: route_catch_def split: if_splits)

lemma timeseries_route_codes:
  "fst (timeseries_route e uuid q w) = Failure_json code msg \<Longrightarrow>
   code = 400 \<or> code = 404 \<or> code = 502"
  by (auto simp: timeseries_route_def split: if_splits prod.splits sum.splits
      dest: route_catch_code)

lemma parse_query_entity:
  "parse_query e uuid q = Inr rq \<Longrightarrow> entityType rq = ''DEVICE'' \<and> entityId rq = uuid"
  by (auto simp: parse_query_def Let_def split: if_splits)

text \<open>The executor's result when the token is obtained and the request is rejected.\<close>

lemma attempt_rejected:
  assumes client: "getValidToken e w = (Inr tok, w1)"
    and reply: "snd (telemetry_replies e (n_telemetry w1)) = Rejected m"
  shows "getTimeseriesWithRetry e rq retryCount w
     = (Inl (AxiosError m), snd (client_get e tok (endpoint rq) (build_params e rq) w1))"
proof -
  have gv: "getAuthenticatedClient e w = (Inr tok, w1)"
    using client by (simp add: getAuthenticatedClient_def)
  define w2 where "w2 = snd (client_get e tok (endpoint rq) (build_params e rq) w1)"
  have get: "client_get e tok (endpoint rq) (build_params e rq) w1 = (Rejected m, w2)"
    using reply by (simp add: client_get_def w2_def)
  show ?thesis
    unfolding w2_def [symmetric]
    using gv get
    by (subst getTimeseriesWithRetry.simps) simp
qed

text \<open>
  C7, as the code has it. The executor throws plain \<open>Error\<close>s, and the \<open>catch\<close> of the
  route tells them apart by one test: a message that includes \<open>not found\<close> gives 404,
  every other message gives 502. For a request whose device is found and whose query passes
  the checks, once a token is obtained, from the cache or by a renewal: an upstream 404 is
  answered with a gateway 404 and the error \<open>Entity not found: ...\<close>; an upstream 400 is
  answered with the error \<open>Bad request:\<close> followed by the upstream message and the
  status 502, or 404 if the upstream message includes \<open>not found\<close>, never 400; a rejected
  request is answered with its message and 502, or 404 by the same test. Whatever error
  \<open>getTimeseries\<close> ends with, the response is 404 or 502 by that test. No failure response
  has a status other than 400, 404 or 502, so none is a 500.
\<close>

theorem upstream_failure_status:
  "(\<forall>device w1 rq tok w2.
      \<not> missing_required q \<and> validateDevice e uuid w = (Inr device, w1)
      \<and> parse_query e uuid q = Inr rq \<and> getValidToken e w1 = (Inr tok, w2)
      \<and> snd (telemetry_replies e (n_telemetry w2)) = Response 404 tx d \<longrightarrow>
      timeseries_route e uuid q w
        = (Failure_json 404
             (''Entity not found: DEVICE/'' @ uuid @ '' (404). Check entity ID and type.''),
           snd (client_get e tok (endpoint rq) (build_params e rq) w2)))
   \<and> (\<forall>device w1 rq tok w2.
      \<not> missing_required q \<and> validateDevice e uuid w = (Inr device, w1)
      \<and> parse_query e uuid q = Inr rq \<and> getValidToken e w1 = (Inr tok, w2)
      \<and> snd (telemetry_replies e (n_telemetry w2)) = Response 400 tx d \<longrightarrow>
      timeseries_route e uuid q w
        = (Failure_json (if includesStr (data_message d) ''not found'' then 404 else 502)
             (''Bad request: '' @
                (if data_message d \<noteq> [] then data_message d else ''Invalid parameters'')),
           snd (client_get e tok (endpoint rq) (build_params e rq) w2)))
   \<and> (\<forall>device w1 rq tok w2 m.
      \<not> missing_required q \<and> validateDevice e uuid w = (Inr device, w1)
      \<and> parse_query e uuid q = Inr rq \<and> getValidToken e w1 = (Inr tok, w2)
      \<and> snd (telemetry_replies e (n_telemetry w2)) = Rejected m \<longrightarrow>
      timeseries_route e uuid q w
        = (Failure_json (if includesStr m ''not found'' then 404 else 502) m,
           snd (client_get e tok (endpoint rq) (build_params e rq) w2)))
   \<and> (\<forall>err device w1 rq w2.
        \<not> missing_required q \<and> validateDevice e uuid w = (Inr device, w1)
        \<and> parse_query e uuid q = Inr rq \<and> getTimeseries e rq w1 = (Inl err, w2) \<longrightarrow>
        timeseries_route e uuid q w
          = (Failure_json (if includesStr (message err) ''not found'' then 404 else 502)
               (message err), w2))
   \<and> (\<forall>code msg. fst (timeseries_route e uuid q w) = Failure_json code msg \<longrightarrow>
        code = 400 \<or> code = 404 \<or> code = 502)"
proof (intro conjI allI impI)
  fix device w1 rq tok w2
  assume h: "\<not> missing_required q \<and> validateDevice e uuid w = (Inr device, w1)
      \<and> parse_query e uuid q = Inr rq \<and> getValidToken e w1 = (Inr tok, w2)
      \<and> snd (telemetry_replies e (n_telemetry w2)) = Response 404 tx d"
  then have client: "getValidToken e w1 = (Inr tok, w2)"
    and reply: "snd (telemetry_replies e (n_telemetry w2)) = Response 404 tx d"
    and entity: "entityType rq = ''DEVICE''" "entityId rq = uuid"
    using parse_query_entity [of e uuid q rq] by simp_all
  have "getTimeseries e rq w1
      = (Inl (Error (''Entity not found: DEVICE/'' @ uuid
                @ '' (404). Check entity ID and type.'')),
         snd (client_get e tok (endpoint rq) (build_params e rq) w2))"
    using attempt_ends [OF client reply, of 0 rq] entity by (simp add: getTimeseries_def)
  then show "timeseries_route e uuid q w
        = (Failure_json 404
             (''Entity not found: DEVICE/'' @ uuid @ '' (404). Check entity ID and type.''),
           snd (client_get e tok (endpoint rq) (build_params e rq) w2))"
    using h not_found_404 [of "''DEVICE''" uuid] by (simp add: timeseries_route_def)
next
  fix device w1 rq tok w2
  assume h: "\<not> missing_required q \<and> validateDevice e uuid w = (Inr device, w1)
      \<and> parse_query e uuid q = Inr rq \<and> getValidToken e w1 = (Inr tok, w2)
      \<and> snd (telemetry_replies e (n_telemetry w2)) = Response 400 tx d"
  then have client: "getValidToken e w1 = (Inr tok, w2)"
    and reply: "snd (telemetry_replies e (n_telemetry w2)) = Response 400 tx d"
    by simp_all
  have "getTimeseries e rq w1
      = (Inl (Error (''Bad request: '' @
                (if data_message d \<noteq> [] then data_message d else ''Invalid parameters''))),
         snd (client_get e tok (endpoint rq) (build_params e rq) w2))"
    using attempt_ends [OF client reply, of 0 rq] by (simp add: getTimeseries_def)
  then show "timeseries_route e uuid q w
        = (Failure_json (if includesStr (data_message d) ''not found'' then 404 else 502)
             (''Bad request: '' @
                (if data_message d \<noteq> [] then data_message d else ''Invalid parameters'')),
           snd (client_get e tok (endpoint rq) (build_params e rq) w2))"
    using h by (simp add: timeseries_route_def route_catch_def)
next
  fix device w1 rq tok w2 m
  assume h: "\<not> missing_required q \<and> validateDevice e uuid w = (Inr device, w1)
      \<and> parse_query e uuid q = Inr rq \<and> getValidToken e w1 = (Inr tok, w2)
      \<and> snd (telemetry_replies e (n_telemetry w2)) = Rejected m"
  then have client: "getValidToken e w1 = (Inr tok, w2)"
    and reply: "snd (telemetry_replies e (n_telemetry w2)) = Rejected m"
    by simp_all
  have "getTimeseries e rq w1
      = (Inl (AxiosError m), snd (client_get e tok (endpoint rq) (build_params e rq) w2))"
    using attempt_rejected [OF client reply, of rq 0] by (simp add: getTimeseries_def)
  then show "timeseries_route e uuid q w
        = (Failure_json (if includesStr m ''not found'' then 404 else 502) m,
           snd (client_get e tok (endpoint rq) (build_params e rq) w2))"
    using h by (simp add: timeseries_route_def route_catch_def)
next
  fix err device w1 rq w2
  assume "\<not> missing_required q \<and> validateDevice e uuid w = (Inr device, w1)
        \<and> parse_query e uuid q = Inr rq \<and> getTimeseries e rq w1 = (Inl err, w2)"
  then show "timeseries_route e uuid q w
          = (Failure_json (if includesStr (message err) ''not found'' then 404 else 502)
               (message err), w2)"
    by (simp add: timeseries_route_def route_catch_def)
next
  fix code msg
  assume "fst (timeseries_route e uuid q w) = Failure_json code msg"
  then show "code = 400 \<or> code = 404 \<or> code = 502"
    by (rule timeseries_route_codes)
qed

lemmas route_defs =
  timeseries_route_def missing_required_def parse_query_def keyArray_of_def optional_int_def
  greater_or_equal_def route_catch_def meta_of_def validAgg_def validOrder_def
  query_example_def request_example_def

lemmas string_defs =
  parseInt_def is_space_def is_digit_def digits_value_def trim_def toUpperCase_def
  toLowerCase_def upper_char_def lower_char_def number_defs

lemma parse_query_example: "parse_query e ''545ffcb0'' query_example = Inr request_example"
  by (simp add: route_defs string_defs)

lemma validateDevice_example:
  "validateDevice env_example ''545ffcb0'' (initial t)
     = (Inr device_example,
        (initial t)\<lparr>devicesCache := Some [device_example], cacheTimestamp := t + 10,
                     n_directory := 1, trace := [Get_devices], now := t + 10\<rparr>)"
  by (simp add: scenario_defs device_defs device_example_def)

text \<open>
  The claim as stated fails: the upstream answers 400 with the message \<open>Invalid key\<close>,
  and the gateway answers 502.
\<close>

theorem upstream_400_counterexample:
  "snd (telemetry_replies env_400 0) = Response 400 ''Bad Request'' (error_data ''Invalid key'')
   \<and> fst (timeseries_route env_400 ''545ffcb0'' query_example (initial 0))
       = Failure_json 502 ''Bad request: Invalid key''"
  by (simp add: env_400_def scenario_defs device_defs device_example_def route_defs
      string_defs error_data_def getTimeseriesWithRetry.simps executor_defs auth_defs)

text \<open>
  The same request on five upstreams: one that answers 404, one that answers 404 to a
  process that holds a valid token while logins and refreshes are refused, one that answers
  400 with the message \<open>device not found\<close>, one whose telemetry endpoint times out, and
  one whose login hands out a token with an expiry that cannot be logged.
\<close>

theorem upstream_failure_status_witness:
  "fst (timeseries_route env_404 ''545ffcb0'' query_example (initial 0))
     = Failure_json 404 ''Entity not found: DEVICE/545ffcb0 (404). Check entity ID and type.''
   \<and> fst (timeseries_route env_404_auth_down ''545ffcb0'' query_example
             (holding ''cur'' ''r0'' 10000000 0))
     = Failure_json 404 ''Entity not found: DEVICE/545ffcb0 (404). Check entity ID and type.''
   \<and> fst (timeseries_route
             (env_example\<lparr>telemetry_replies :=
                (\<lambda>k. (30, Response 400 ''Bad Request'' (error_data ''device not found'')))\<rparr>)
             ''545ffcb0'' query_example (initial 0))
     = Failure_json 404 ''Bad request: device not found''
   \<and> fst (timeseries_route env_telemetry_down ''545ffcb0'' query_example (initial 0))
     = Failure_json 502 ''timeout of 30000ms exceeded''
   \<and> fst (timeseries_route env_far_login ''545ffcb0'' query_example (initial 0))
     = Failure_json 502 ''Invalid time value''"
proof -
  note defs = env_404_def env_404_auth_down_def env_telemetry_down_def env_far_login_def
    scenario_defs device_defs device_example_def error_data_def executor_defs auth_defs
  define e400 where "e400 = env_example\<lparr>telemetry_replies :=
      (\<lambda>k. (30, Response 400 ''Bad Request'' (error_data ''device not found'')))\<rparr>"
  define w1 where "w1 = (initial 0)\<lparr>devicesCache := Some [device_example],
      cacheTimestamp := 10, n_directory := 1, trace := [Get_devices], now := 10\<rparr>"
  define v1 where "v1 = (holding ''cur'' ''r0'' 10000000 0)\<lparr>devicesCache :=
      Some [device_example], cacheTimestamp := 10, n_directory := 1, trace := [Get_devices],
      now := 10\<rparr>"
  have required: "\<not> missing_required query_example"
    by (simp add: missing_required_def query_example_def)
  have h404: "\<not> missing_required query_example
      \<and> validateDevice env_404 ''545ffcb0'' (initial 0) = (Inr device_example, w1)
      \<and> parse_query env_404 ''545ffcb0'' query_example = Inr request_example
      \<and> getValidToken env_404 w1 = (Inr ''h.fresh.s'', snd (getValidToken env_404 w1))
      \<and> snd (telemetry_replies env_404 (n_telemetry (snd (getValidToken env_404 w1))))
          = Response 404 ''Not Found'' (error_data [])"
    unfolding w1_def by (simp add: required parse_query_example) (simp add: defs)
  have hdown: "\<not> missing_required query_example
      \<and> validateDevice env_404_auth_down ''545ffcb0'' (holding ''cur'' ''r0'' 10000000 0)
          = (Inr device_example, v1)
      \<and> parse_query env_404_auth_down ''545ffcb0'' query_example = Inr request_example
      \<and> getValidToken env_404_auth_down v1 = (Inr ''cur'', v1)
      \<and> snd (telemetry_replies env_404_auth_down (n_telemetry v1))
          = Response 404 ''Not Found'' (error_data [])"
    unfolding v1_def by (simp add: required parse_query_example) (simp add: defs)
  have h400: "\<not> missing_required query_example
      \<and> validateDevice e400 ''545ffcb0'' (initial 0) = (Inr device_example, w1)
      \<and> parse_query e400 ''545ffcb0'' query_example = Inr request_example
      \<and> getValidToken e400 w1 = (Inr ''h.fresh.s'', snd (getValidToken e400 w1))
      \<and> snd (telemetry_replies e400 (n_telemetry (snd (getValidToken e400 w1))))
          = Response 400 ''Bad Request'' (error_data ''device not found'')"
    unfolding w1_def e400_def by (simp add: required parse_query_example) (simp add: defs)
  have hrej: "\<not> missing_required query_example
      \<and> validateDevice env_telemetry_down ''545ffcb0'' (initial 0) = (Inr device_example, w1)
      \<and> parse_query env_telemetry_down ''545ffcb0'' query_example = Inr request_example
      \<and> getValidToken env_telemetry_down w1
          = (Inr ''h.fresh.s'', snd (getValidToken env_telemetry_down w1))
      \<and> snd (telemetry_replies env_telemetry_down
                (n_telemetry (snd (getValidToken env_telemetry_down w1))))
          = Rejected ''timeout of 30000ms exceeded''"
    unfolding w1_def by (simp add: required parse_query_example) (simp add: defs)
  have hfar: "\<not> missing_required query_example
      \<and> validateDevice env_far_login ''545ffcb0'' (initial 0) = (Inr device_example, w1)
      \<and> parse_query env_far_login ''545ffcb0'' query_example = Inr request_example
      \<and> getTimeseries env_far_login request_example w1
          = (Inl (RangeError ''Invalid time value''),
             snd (getTimeseries env_far_login request_example w1))"
    unfolding w1_def
    by (simp add: required parse_query_example)
      (simp add: defs getTimeseriesWithRetry.simps)
  note a = upstream_failure_status [THEN conjunct1, rule_format, OF h404]
  note b = upstream_failure_status [THEN conjunct1, rule_format, OF hdown]
  note c = upstream_failure_status [THEN conjunct2, THEN conjunct1, rule_format, OF h400]
  note d = upstream_failure_status [THEN conjunct2, THEN conjunct2, THEN conjunct1,
      rule_format, OF hrej]
  note f = upstream_failure_status [THEN conjunct2, THEN conjunct2, THEN conjunct2,
      THEN conjunct1, rule_format, OF hfar]
  have a1: "fst (timeseries_route env_404 ''545ffcb0'' query_example (initial 0))
      = Failure_json 404 ''Entity not found: DEVICE/545ffcb0 (404). Check entity ID and type.''"
    using a by simp
  note g = upstream_failure_status [THEN conjunct2, THEN conjunct2, THEN conjunct2,
      THEN conjunct2, rule_format, OF a1]
  show ?thesis
    using a1 b c d f g unfolding e400_def by (simp add: error_data_def)
qed

section \<open>C8: what the route checks before it dispatches\<close>

lemma validateDevice_upstream:
  "upstream_requests (snd (validateDevice e uuid w)) = upstream_requests w"
  by (rule validateDevice_preserves
        [where P = "\<lambda>x. upstream_requests x = upstream_requests w"])
    (simp_all add: upstream_requests_def get_devices_def)

lemma bad_request_without_upstream:
  assumes "fst (timeseries_route e uuid q w) = Failure_json 400 reason"
  shows "upstream_requests (snd (timeseries_route e uuid q w)) = upstream_requests w"
proof (cases "missing_required q")
  case True
  then show ?thesis by (simp add: timeseries_route_def)
next
  case False
  obtain r1 w1 where v: "validateDevice e uuid w = (r1, w1)"
    by (cases "validateDevice e uuid w")
  have same: "upstream_requests w1 = upstream_requests w"
    using validateDevice_upstream [of e uuid w] v by simp
  have no400: "route_catch err \<noteq> Failure_json 400 reason" for err
    by (simp add: route_catch_def)
  show ?thesis
    using assms False v same no400
    by (auto simp: timeseries_route_def split: sum.splits prod.splits)
qed

lemma rejected_number_cases:
  "rejected_number (Some NaN) = False"
  "rejected_number (Some (Num n)) = (n < 0)"
  "rejected_number (Some Infinity) = False"
  "rejected_number (Some Minus_Infinity) = True"
  by auto

declare rejected_number.simps(2) [simp del]
declare rejected_number_cases [simp]

lemma rejected_number_negative: "rejected_number (Some v) = less_than v (Num 0)"
  by (cases v) simp_all

lemma parseInt_empty: "parseInt e [] = NaN"
  by (simp add: parseInt_def)

lemma optional_int_negative:
  assumes "x = Some s" and "less_than (parseInt e s) (Num 0)"
  shows "rejected_number (optional_int e x)"
proof -
  have "s \<noteq> []"
    using assms(2) by (auto simp: parseInt_empty)
  then show ?thesis
    using assms by (simp add: optional_int_def rejected_number_negative)
qed

lemma not_greater_or_equal:
  "\<not> isNaN a \<Longrightarrow> \<not> isNaN b \<Longrightarrow> greater_or_equal a b = (\<not> less_than a b)"
  by (simp add: greater_or_equal_def)

lemma parse_query_accepts:
  assumes "parse_query e uuid q = Inr rq"
  shows "agg rq = (if truthy (q_agg q) then q_agg q else None)
     \<and> (\<forall>a. agg rq = Some a \<longrightarrow> toUpperCase a \<in> set validAgg)
     \<and> orderBy rq = (if truthy (q_orderBy q) then q_orderBy q else None)
     \<and> (\<forall>ob. orderBy rq = Some ob \<longrightarrow> toUpperCase ob \<in> set validOrder)
     \<and> useStrictDataTypes rq
         = (if truthy (q_useStrictDataTypes q)
               \<and> toLowerCase (String (q_useStrictDataTypes q)) = ''true''
            then Some True else None)
     \<and> useStrictDataTypes rq \<noteq> Some False
     \<and> less_than (startTs rq) (endTs rq)
     \<and> keys rq \<noteq> []
     \<and> \<not> rejected_number (interval rq) \<and> \<not> rejected_number (limit rq)"
proof -
  have str: "truthy x \<Longrightarrow> Some (String x) = x" for x
    by (cases x) simp_all
  show ?thesis
    using assms
    by (auto simp: parse_query_def Let_def str greater_or_equal_def split: if_splits)
qed

text \<open>The trace only grows, so the first query of a dispatch stays where it was sent.\<close>

lemma getTimeseriesWithRetry_extends:
  "\<exists>evs. trace (snd (getTimeseriesWithRetry e rq retryCount w)) = trace w @ evs"
  by (rule getTimeseriesWithRetry_preserves [where P = "\<lambda>x. \<exists>evs. trace x = trace w @ evs"])
    (auto simp: post_login_def post_refresh_def storeToken_def setupAutoRefresh_def
      setInterval_def clearInterval_def client_get_def delay_def emit_def Let_def
      split: option.splits)

lemma refreshToken_extends: "\<exists>evs. trace (snd (refreshToken e w)) = trace w @ evs"
  by (rule refreshToken_preserves [where P = "\<lambda>x. \<exists>evs. trace x = trace w @ evs"])
    (auto simp: post_login_def post_refresh_def storeToken_def setupAutoRefresh_def
      setInterval_def clearInterval_def Let_def split: option.splits)

lemma first_query:
  assumes client: "getValidToken e w = (Inr tok, w1)"
  shows "\<exists>evs. trace (snd (getTimeseriesWithRetry e rq retryCount w))
           = trace w1 @ Get_timeseries tok (endpoint rq) (build_params e rq) # evs"
proof -
  have gv: "getAuthenticatedClient e w = (Inr tok, w1)"
    using client by (simp add: getAuthenticatedClient_def)
  define w2 where "w2 = snd (client_get e tok (endpoint rq) (build_params e rq) w1)"
  have t2: "trace w2 = trace w1 @ [Get_timeseries tok (endpoint rq) (build_params e rq)]"
    by (simp add: w2_def client_get_def)
  obtain rep where get: "client_get e tok (endpoint rq) (build_params e rq) w1 = (rep, w2)"
    by (simp add: w2_def client_get_def)
  define wr where "wr = emit Call_refreshToken (delay retryDelayMs w2)"
  have tr: "trace wr = trace w2 @ [Delay retryDelayMs, Call_refreshToken]"
    by (simp add: wr_def emit_def delay_def)
  obtain evs3 where t3: "trace (snd (refreshToken e wr)) = trace wr @ evs3"
    using refreshToken_extends by blast
  obtain evs4 where t4:
    "trace (snd (getTimeseriesWithRetry e rq (Suc retryCount) (snd (refreshToken e wr))))
       = trace (snd (refreshToken e wr)) @ evs4"
    using getTimeseriesWithRetry_extends by blast
  have "snd (getTimeseriesWithRetry e rq retryCount w) = w2
      \<or> snd (getTimeseriesWithRetry e rq retryCount w) = snd (refreshToken e wr)
      \<or> snd (getTimeseriesWithRetry e rq retryCount w)
          = snd (getTimeseriesWithRetry e rq (Suc retryCount) (snd (refreshToken e wr)))"
    using gv get
    by (subst (1 2 3) getTimeseriesWithRetry.simps)
      (auto simp: wr_def split: reply.splits prod.splits sum.splits)
  then show ?thesis
    using t2 tr t3 t4 by auto
qed

text \<open>
  C8, as the code has it. The route first asks for the required parameters, then looks the
  device up, then checks the query in a fixed order. With the device found, both timestamps
  numbers, \<open>startTs\<close> below \<open>endTs\<close> and a key given, an interval that \<open>parseInt\<close> reads
  as a negative number is answered 400 with \<open>Interval must be a positive number\<close>,
  whatever the aggregation, the order and the limit are; when the interval, the aggregation
  and the order pass as well, a limit that \<open>parseInt\<close> reads as a negative number is
  answered 400 with \<open>Limit must be a positive number\<close>. Whenever the route answers 400, no
  login, refresh or telemetry request has been sent (the device directory may have been
  asked: the device lookup comes before these checks). A query that passes is dispatched,
  once a token is obtained, as one upstream query with the aggregation and the order exactly
  as they came, each one valid once uppercased, and with the strict-types flag true when the
  raw flag, lowercased, is \<open>true\<close> and absent otherwise, never false; its \<open>startTs\<close> is
  below its \<open>endTs\<close> and it has a key.
\<close>

theorem query_validation:
  "(\<forall>device w1 s.
      \<not> missing_required q \<and> validateDevice e uuid w = (Inr device, w1)
      \<and> \<not> isNaN (parseInt e (String (q_startTs q)))
      \<and> \<not> isNaN (parseInt e (String (q_endTs q)))
      \<and> less_than (parseInt e (String (q_startTs q))) (parseInt e (String (q_endTs q)))
      \<and> keyArray_of q \<noteq> []
      \<and> q_interval q = Some s \<and> less_than (parseInt e s) (Num 0) \<longrightarrow>
      timeseries_route e uuid q w
        = (Failure_json 400 ''Interval must be a positive number'', w1))
   \<and> (\<forall>device w1 s.
      \<not> missing_required q \<and> validateDevice e uuid w = (Inr device, w1)
      \<and> \<not> isNaN (parseInt e (String (q_startTs q)))
      \<and> \<not> isNaN (parseInt e (String (q_endTs q)))
      \<and> less_than (parseInt e (String (q_startTs q))) (parseInt e (String (q_endTs q)))
      \<and> keyArray_of q \<noteq> []
      \<and> \<not> rejected_number (optional_int e (q_interval q))
      \<and> (truthy (q_agg q) \<longrightarrow> toUpperCase (String (q_agg q)) \<in> set validAgg)
      \<and> (truthy (q_orderBy q) \<longrightarrow> toUpperCase (String (q_orderBy q)) \<in> set validOrder)
      \<and> q_limit q = Some s \<and> less_than (parseInt e s) (Num 0) \<longrightarrow>
      timeseries_route e uuid q w
        = (Failure_json 400 ''Limit must be a positive number'', w1))
   \<and> (\<forall>reason. fst (timeseries_route e uuid q w) = Failure_json 400 reason \<longrightarrow>
        n_login (snd (timeseries_route e uuid q w)) = n_login w
        \<and> n_refresh (snd (timeseries_route e uuid q w)) = n_refresh w
        \<and> n_telemetry (snd (timeseries_route e uuid q w)) = n_telemetry w)
   \<and> (\<forall>device w1 rq tok w2.
        \<not> missing_required q \<and> validateDevice e uuid w = (Inr device, w1)
        \<and> parse_query e uuid q = Inr rq \<and> getValidToken e w1 = (Inr tok, w2) \<longrightarrow>
        (\<exists>evs. trace (snd (timeseries_route e uuid q w))
           = trace w2
             @ Get_timeseries tok
                 (''/api/plugins/telemetry/DEVICE/'' @ uuid @ ''/values/timeseries'')
                 \<lparr>p_keys = join '','' (keyArray_of q),
                  p_startTs = toString e (parseInt e (String (q_startTs q))),
                  p_endTs = toString e (parseInt e (String (q_endTs q))),
                  p_interval = optional_int e (q_interval q),
                  p_agg = (if truthy (q_agg q) then q_agg q else None),
                  p_orderBy = (if truthy (q_orderBy q) then q_orderBy q else None),
                  p_limit = optional_int e (q_limit q),
                  p_useStrictDataTypes =
                    (if truthy (q_useStrictDataTypes q)
                        \<and> toLowerCase (String (q_useStrictDataTypes q)) = ''true''
                     then Some True else None)\<rparr>
               # evs))
   \<and> (\<forall>rq. parse_query e uuid q = Inr rq \<longrightarrow>
        agg rq = (if truthy (q_agg q) then q_agg q else None)
        \<and> (\<forall>a. agg rq = Some a \<longrightarrow> toUpperCase a \<in> set validAgg)
        \<and> orderBy rq = (if truthy (q_orderBy q) then q_orderBy q else None)
        \<and> (\<forall>ob. orderBy rq = Some ob \<longrightarrow> toUpperCase ob \<in> set validOrder)
        \<and> useStrictDataTypes rq
            = (if truthy (q_useStrictDataTypes q)
                  \<and> toLowerCase (String (q_useStrictDataTypes q)) = ''true''
               then Some True else None)
        \<and> useStrictDataTypes rq \<noteq> Some False
        \<and> less_than (startTs rq) (endTs rq)
        \<and> keys rq \<noteq> []
        \<and> \<not> rejected_number (interval rq) \<and> \<not> rejected_number (limit rq))"
proof (intro conjI allI impI)
  fix device w1 s
  assume h: "\<not> missing_required q \<and> validateDevice e uuid w = (Inr device, w1)
      \<and> \<not> isNaN (parseInt e (String (q_startTs q)))
      \<and> \<not> isNaN (parseInt e (String (q_endTs q)))
      \<and> less_than (parseInt e (String (q_startTs q))) (parseInt e (String (q_endTs q)))
      \<and> keyArray_of q \<noteq> []
      \<and> q_interval q = Some s \<and> less_than (parseInt e s) (Num 0)"
  then have refused: "rejected_number (optional_int e (q_interval q))"
    using optional_int_negative [of "q_interval q" s e] by simp
  have "parse_query e uuid q = Inl ''Interval must be a positive number''"
    using h refused by (simp add: parse_query_def Let_def not_greater_or_equal)
  then show "timeseries_route e uuid q w
        = (Failure_json 400 ''Interval must be a positive number'', w1)"
    using h by (simp add: timeseries_route_def)
next
  fix device w1 s
  assume h: "\<not> missing_required q \<and> validateDevice e uuid w = (Inr device, w1)
      \<and> \<not> isNaN (parseInt e (String (q_startTs q)))
      \<and> \<not> isNaN (parseInt e (String (q_endTs q)))
      \<and> less_than (parseInt e (String (q_startTs q))) (parseInt e (String (q_endTs q)))
      \<and> keyArray_of q \<noteq> []
      \<and> \<not> rejected_number (optional_int e (q_interval q))
      \<and> (truthy (q_agg q) \<longrightarrow> toUpperCase (String (q_agg q)) \<in> set validAgg)
      \<and> (truthy (q_orderBy q) \<longrightarrow> toUpperCase (String (q_orderBy q)) \<in> set validOrder)
      \<and> q_limit q = Some s \<and> less_than (parseInt e s) (Num 0)"
  then have refused: "rejected_number (optional_int e (q_limit q))"
    using optional_int_negative [of "q_limit q" s e] by simp
  have "parse_query e uuid q = Inl ''Limit must be a positive number''"
    using h refused by (auto simp: parse_query_def Let_def not_greater_or_equal)
  then show "timeseries_route e uuid q w
        = (Failure_json 400 ''Limit must be a positive number'', w1)"
    using h by (simp add: timeseries_route_def)
next
  fix reason
  assume "fst (timeseries_route e uuid q w) = Failure_json 400 reason"
  then have same: "upstream_requests (snd (timeseries_route e uuid q w)) = upstream_requests w"
    by (rule bad_request_without_upstream)
  show "n_login (snd (timeseries_route e uuid q w)) = n_login w"
    using same by (simp add: upstream_requests_def)
  show "n_refresh (snd (timeseries_route e uuid q w)) = n_refresh w"
    using same by (simp add: upstream_requests_def)
  show "n_telemetry (snd (timeseries_route e uuid q w)) = n_telemetry w"
    using same by (simp add: upstream_requests_def)
next
  fix device w1 rq tok w2
  assume h: "\<not> missing_required q \<and> validateDevice e uuid w = (Inr device, w1)
        \<and> parse_query e uuid q = Inr rq \<and> getValidToken e w1 = (Inr tok, w2)"
  then have client: "getValidToken e w1 = (Inr tok, w2)"
    and parsed: "parse_query e uuid q = Inr rq"
    by simp_all
  have str: "truthy x \<Longrightarrow> Some (String x) = x" for x
    by (cases x) simp_all
  have sent: "endpoint rq = ''/api/plugins/telemetry/DEVICE/'' @ uuid @ ''/values/timeseries''"
    "build_params e rq =
       \<lparr>p_keys = join '','' (keyArray_of q),
        p_startTs = toString e (parseInt e (String (q_startTs q))),
        p_endTs = toString e (parseInt e (String (q_endTs q))),
        p_interval = optional_int e (q_interval q),
        p_agg = (if truthy (q_agg q) then q_agg q else None),
        p_orderBy = (if truthy (q_orderBy q) then q_orderBy q else None),
        p_limit = optional_int e (q_limit q),
        p_useStrictDataTypes =
          (if truthy (q_useStrictDataTypes q)
              \<and> toLowerCase (String (q_useStrictDataTypes q)) = ''true''
           then Some True else None)\<rparr>"
    using parsed
    by (auto simp: parse_query_def Let_def endpoint_def build_params_def str split: if_splits)
  have state: "snd (timeseries_route e uuid q w) = snd (getTimeseriesWithRetry e rq 0 w1)"
    using h by (simp add: timeseries_route_def getTimeseries_def split: prod.splits sum.splits)
  show "\<exists>evs. trace (snd (timeseries_route e uuid q w))
           = trace w2
             @ Get_timeseries tok
                 (''/api/plugins/telemetry/DEVICE/'' @ uuid @ ''/values/timeseries'')
                 \<lparr>p_keys = join '','' (keyArray_of q),
                  p_startTs = toString e (parseInt e (String (q_startTs q))),
                  p_endTs = toString e (parseInt e (String (q_endTs q))),
                  p_interval = optional_int e (q_interval q),
                  p_agg = (if truthy (q_agg q) then q_agg q else None),
                  p_orderBy = (if truthy (q_orderBy q) then q_orderBy q else None),
                  p_limit = optional_int e (q_limit q),
                  p_useStrictDataTypes =
                    (if truthy (q_useStrictDataTypes q)
                        \<and> toLowerCase (String (q_useStrictDataTypes q)) = ''true''
                     then Some True else None)\<rparr>
               # evs"
    unfolding state using first_query [OF client, of rq 0] by (simp only: sent)
next
  fix rq
  assume ok: "parse_query e uuid q = Inr rq"
  note acc = parse_query_accepts [OF ok]
  show "agg rq = (if truthy (q_agg q) then q_agg q else None)" using acc by blast
  show "orderBy rq = (if truthy (q_orderBy q) then q_orderBy q else None)" using acc by blast
  show "useStrictDataTypes rq
            = (if truthy (q_useStrictDataTypes q)
                  \<and> toLowerCase (String (q_useStrictDataTypes q)) = ''true''
               then Some True else None)" using acc by blast
  show "useStrictDataTypes rq \<noteq> Some False" using acc by blast
  show "less_than (startTs rq) (endTs rq)" using acc by blast
  show "keys rq \<noteq> []" using acc by blast
  show "\<not> rejected_number (interval rq)" using acc by blast
  show "\<not> rejected_number (limit rq)" using acc by blast
  fix a
  assume "agg rq = Some a"
  then show "toUpperCase a \<in> set validAgg" using acc by blast
next
  fix rq ob
  assume "parse_query e uuid q = Inr rq" and "orderBy rq = Some ob"
  then show "toUpperCase ob \<in> set validOrder"
    using parse_query_accepts [of e uuid q rq] by blast
qed

text \<open>
  Four requests for the example device: a negative interval together with an unknown
  aggregation, a negative limit, a lower-case aggregation with the strict-types flag
  \<open>TRUE\<close>, and the strict-types flag \<open>false\<close>.
\<close>

theorem query_validation_witness:
  "fst (timeseries_route env_example ''545ffcb0''
          (query_example\<lparr>q_interval := Some ''-5'', q_agg := Some ''bogus''\<rparr>) (initial 0))
     = Failure_json 400 ''Interval must be a positive number''
   \<and> n_login (snd (timeseries_route env_example ''545ffcb0''
          (query_example\<lparr>q_interval := Some ''-5'', q_agg := Some ''bogus''\<rparr>) (initial 0))) = 0
   \<and> n_telemetry (snd (timeseries_route env_example ''545ffcb0''
          (query_example\<lparr>q_interval := Some ''-5'', q_agg := Some ''bogus''\<rparr>) (initial 0))) = 0
   \<and> fst (timeseries_route env_example ''545ffcb0''
          (query_example\<lparr>q_limit := Some ''-1''\<rparr>) (initial 0))
     = Failure_json 400 ''Limit must be a positive number''
   \<and> (\<exists>evs. trace (snd (timeseries_route env_example ''545ffcb0''
          (query_example\<lparr>q_agg := Some ''avg'', q_useStrictDataTypes := Some ''TRUE''\<rparr>)
          (initial 0)))
        = [Get_devices, Post_login,
           Get_timeseries ''h.fresh.s''
             ''/api/plugins/telemetry/DEVICE/545ffcb0/values/timeseries''
             \<lparr>p_keys = ''temperature,humidity'', p_startTs = ''1705689600000'',
              p_endTs = ''1705776000000'', p_interval = None, p_agg = Some ''avg'',
              p_orderBy = None, p_limit = None, p_useStrictDataTypes = Some True\<rparr>] @ evs)
   \<and> toUpperCase ''avg'' \<in> set validAgg
   \<and> parse_query env_example ''545ffcb0''
        (query_example\<lparr>q_useStrictDataTypes := Some ''false''\<rparr>) = Inr request_example"
proof -
  define w1 where "w1 = (initial 0)\<lparr>devicesCache := Some [device_example],
      cacheTimestamp := 10, n_directory := 1, trace := [Get_devices], now := 10\<rparr>"
  have found: "validateDevice env_example ''545ffcb0'' (initial 0) = (Inr device_example, w1)"
    unfolding w1_def by (simp add: validateDevice_example)
  define qa where "qa = query_example\<lparr>q_interval := Some ''-5'', q_agg := Some ''bogus''\<rparr>"
  define qb where "qb = query_example\<lparr>q_limit := Some ''-1''\<rparr>"
  define qc where
    "qc = query_example\<lparr>q_agg := Some ''avg'', q_useStrictDataTypes := Some ''TRUE''\<rparr>"
  have negative_interval:
    "\<not> missing_required qa
     \<and> validateDevice env_example ''545ffcb0'' (initial 0) = (Inr device_example, w1)
     \<and> \<not> isNaN (parseInt env_example (String (q_startTs qa)))
     \<and> \<not> isNaN (parseInt env_example (String (q_endTs qa)))
     \<and> less_than (parseInt env_example (String (q_startTs qa)))
          (parseInt env_example (String (q_endTs qa)))
     \<and> keyArray_of qa \<noteq> []
     \<and> q_interval qa = Some ''-5'' \<and> less_than (parseInt env_example ''-5'') (Num 0)"
    unfolding qa_def by (simp add: found) (simp add: route_defs string_defs)
  have negative_limit:
    "\<not> missing_required qb
     \<and> validateDevice env_example ''545ffcb0'' (initial 0) = (Inr device_example, w1)
     \<and> \<not> isNaN (parseInt env_example (String (q_startTs qb)))
     \<and> \<not> isNaN (parseInt env_example (String (q_endTs qb)))
     \<and> less_than (parseInt env_example (String (q_startTs qb)))
          (parseInt env_example (String (q_endTs qb)))
     \<and> keyArray_of qb \<noteq> []
     \<and> \<not> rejected_number (optional_int env_example (q_interval qb))
     \<and> (truthy (q_agg qb) \<longrightarrow> toUpperCase (String (q_agg qb)) \<in> set validAgg)
     \<and> (truthy (q_orderBy qb) \<longrightarrow> toUpperCase (String (q_orderBy qb)) \<in> set validOrder)
     \<and> q_limit qb = Some ''-1'' \<and> less_than (parseInt env_example ''-1'') (Num 0)"
    unfolding qb_def by (simp add: found) (simp add: route_defs string_defs)
  have accepted: "parse_query env_example ''545ffcb0'' qc
      = Inr (request_example\<lparr>agg := Some ''avg'', useStrictDataTypes := Some True\<rparr>)"
    unfolding qc_def by (simp add: route_defs string_defs)
  have dispatched:
    "\<not> missing_required qc
     \<and> validateDevice env_example ''545ffcb0'' (initial 0) = (Inr device_example, w1)
     \<and> parse_query env_example ''545ffcb0'' qc
         = Inr (request_example\<lparr>agg := Some ''avg'', useStrictDataTypes := Some True\<rparr>)
     \<and> getValidToken env_example w1 = (Inr ''h.fresh.s'', snd (getValidToken env_example w1))"
    using found accepted unfolding w1_def qc_def
    by (simp add: missing_required_def query_example_def) (simp add: scenario_defs auth_defs)
  have not_strict: "parse_query env_example ''545ffcb0''
        (query_example\<lparr>q_useStrictDataTypes := Some ''false''\<rparr>) = Inr request_example"
    by (simp add: route_defs string_defs)
  note a = query_validation [THEN conjunct1, rule_format, OF negative_interval]
  note b = query_validation [THEN conjunct2, THEN conjunct1, rule_format, OF negative_limit]
  have a1: "fst (timeseries_route env_example ''545ffcb0'' qa (initial 0))
      = Failure_json 400 ''Interval must be a positive number''"
    using a by simp
  note c = query_validation [THEN conjunct2, THEN conjunct2, THEN conjunct1, rule_format,
      OF a1]
  note d = query_validation [THEN conjunct2, THEN conjunct2, THEN conjunct2, THEN conjunct1,
      rule_format, OF dispatched]
  note f = query_validation [THEN conjunct2, THEN conjunct2, THEN conjunct2, THEN conjunct2,
      rule_format, OF accepted]
  have sent: "trace (snd (getValidToken env_example w1)) = [Get_devices, Post_login]"
    unfolding w1_def by (simp add: scenario_defs auth_defs)
  have params: "keyArray_of qc = [''temperature'', ''humidity'']"
    "toString env_example (parseInt env_example (String (q_startTs qc))) = ''1705689600000''"
    "toString env_example (parseInt env_example (String (q_endTs qc))) = ''1705776000000''"
    "optional_int env_example (q_interval qc) = None"
    "optional_int env_example (q_limit qc) = None"
    "q_agg qc = Some ''avg''" "q_orderBy qc = None" "q_useStrictDataTypes qc = Some ''TRUE''"
    "toLowerCase ''TRUE'' = ''true''"
    unfolding qc_def by (simp_all add: route_defs string_defs)
  have d1: "\<exists>evs. trace (snd (timeseries_route env_example ''545ffcb0'' qc (initial 0)))
        = [Get_devices, Post_login,
           Get_timeseries ''h.fresh.s''
             ''/api/plugins/telemetry/DEVICE/545ffcb0/values/timeseries''
             \<lparr>p_keys = ''temperature,humidity'', p_startTs = ''1705689600000'',
              p_endTs = ''1705776000000'', p_interval = None, p_agg = Some ''avg'',
              p_orderBy = None, p_limit = None, p_useStrictDataTypes = Some True\<rparr>] @ evs"
    using d by (simp add: sent params)
  have upper: "toUpperCase ''avg'' \<in> set validAgg"
    using f by simp
  have start: "n_login (initial 0) = 0" "n_telemetry (initial 0) = 0"
    by (simp_all add: initial_def)
  show ?thesis
    using a1 b c d1 upper not_strict unfolding qa_def qb_def qc_def by (simp add: start)
qed

text \<open>
  The claim as stated fails. An aggregation \<open>avg\<close> and an order \<open>desc\<close> pass the check
  and are dispatched as they came, not uppercased; and a request with the interval \<open>-5\<close>
  is answered 400 only after the device directory was asked for the device list.
\<close>

theorem query_dispatch_counterexample:
  "trace (snd (timeseries_route env_example ''545ffcb0''
       (query_example\<lparr>q_agg := Some ''avg'', q_orderBy := Some ''desc''\<rparr>) (initial 0)))
     = [Get_devices, Post_login,
        Get_timeseries ''h.fresh.s'' ''/api/plugins/telemetry/DEVICE/545ffcb0/values/timeseries''
          \<lparr>p_keys = ''temperature,humidity'', p_startTs = ''1705689600000'',
           p_endTs = ''1705776000000'', p_interval = None, p_agg = Some ''avg'',
           p_orderBy = Some ''desc'', p_limit = None, p_useStrictDataTypes = None\<rparr>]
   \<and> toUpperCase ''avg'' = ''AVG''
   \<and> fst (timeseries_route env_example ''545ffcb0'' (query_example\<lparr>q_interval := Some ''-5''\<rparr>)
          (initial 0)) = Failure_json 400 ''Interval must be a positive number''
   \<and> trace (snd (timeseries_route env_example ''545ffcb0''
          (query_example\<lparr>q_interval := Some ''-5''\<rparr>) (initial 0))) = [Get_devices]"
  by (simp add: scenario_defs device_defs device_example_def route_defs string_defs
      getTimeseriesWithRetry.simps executor_defs auth_defs endpoint_def build_params_def
      join.simps)

section \<open>C9: what is printed and what is sent back\<close>

text \<open>
  C9 at the construction of the service and at a successful response. The constructor
  prints the password of the configured principal on the console, in plain text; and the
  body of a successful timeseries response carries the access token of the device.
\<close>

theorem constructor_logs_password:
  "snd (ThingsboardAuthService_constructor ''https://portal.indusmind.net''
          ''tenant@indusmind.net'' ''s3cret'' [])
     = [''THINGSBOARD_USERNAME: tenant@indusmind.net'',
        ''THINGSBOARD_PASSWORD: s3cret'',
        ''THINGSBOARD_BASE_URL: https://portal.indusmind.net'']
   \<and> fst (ThingsboardAuthService_constructor ''https://portal.indusmind.net''
          ''tenant@indusmind.net'' ''s3cret'' []) = Inr ()
   \<and> fst (timeseries_route env_example ''545ffcb0'' query_example (initial 0))
     = Success_json sample_data
         \<lparr>deviceUUID = ''545ffcb0'', accessToken = ''device-secret'', name = Some ''Meter 1''\<rparr>
         (meta_of request_example)"
  by (simp add: ThingsboardAuthService_constructor_def scenario_defs device_defs
      device_example_def route_defs string_defs getTimeseriesWithRetry.simps executor_defs
      auth_defs)

section \<open>The expiry that is stored\<close>

text \<open>
  The expiry of the credential that a successful \<open>authenticate()\<close> stores: \<open>exp * 1000\<close>
  when the token has three parts, the middle one decodes and its \<open>exp\<close> is not 0; in every
  other case the time of storing plus 15 minutes.
\<close>

theorem stored_expiry:
  "fst (authenticate e w) = Inr tk \<longrightarrow>
     (\<exists>p. tokenPayload (snd (authenticate e w)) = Some p \<and> token p = tk
        \<and> expiresAt p =
            (case split_on CHR ''.'' tk of
               [header, middle, signature] \<Rightarrow>
                 (case jwt_decode e middle of
                    Some (Payload (Some ex)) \<Rightarrow>
                      if ex \<noteq> 0 then ex * 1000
                      else now (snd (authenticate e w)) + 900000
                  | _ \<Rightarrow> now (snd (authenticate e w)) + 900000)
             | _ \<Rightarrow> now (snd (authenticate e w)) + 900000))"
proof
  assume ok: "fst (authenticate e w) = Inr tk"
  obtain st tx d w1 where sent: "post_login e w = (Response st tx d, w1)"
    using ok by (cases "post_login e w"; cases "fst (post_login e w)")
      (auto simp: authenticate_def)
  have st: "st = 200" and tk: "resp_token d = tk"
    and logged: "log_expiry (storeToken e d w1) = None"
    using ok sent by (auto simp: authenticate_def Let_def split: if_splits option.splits)
  have after: "snd (authenticate e w) = setupAutoRefresh (storeToken e d w1)"
    using sent st logged by (simp add: authenticate_def)
  have clock: "now (setupAutoRefresh x) = now x" and kept: "tokenPayload (setupAutoRefresh x) = tokenPayload x" for x
    by (simp_all add: setupAutoRefresh_def setInterval_def clearInterval_def Let_def
        split: option.splits)
  have stored: "tokenPayload (storeToken e d w1)
      = Some \<lparr>token = tk, refresh_token = resp_refreshToken d,
               expiresAt = getTokenExpiration e w1 tk\<rparr>"
    using tk by (simp add: storeToken_def)
  have now1: "now (storeToken e d w1) = now w1"
    by (simp add: storeToken_def)
  have "getTokenExpiration e w1 tk =
            (case split_on CHR ''.'' tk of
               [header, middle, signature] \<Rightarrow>
                 (case jwt_decode e middle of
                    Some (Payload (Some ex)) \<Rightarrow>
                      if ex \<noteq> 0 then ex * 1000 else now w1 + 900000
                  | _ \<Rightarrow> now w1 + 900000)
             | _ \<Rightarrow> now w1 + 900000)"
    by (auto simp: getTokenExpiration_def Let_def
        split: list.splits option.splits jwt_payload.splits)
  then show "\<exists>p. tokenPayload (snd (authenticate e w)) = Some p \<and> token p = tk
        \<and> expiresAt p =
            (case split_on CHR ''.'' tk of
               [header, middle, signature] \<Rightarrow>
                 (case jwt_decode e middle of
                    Some (Payload (Some ex)) \<Rightarrow>
                      if ex \<noteq> 0 then ex * 1000
                      else now (snd (authenticate e w)) + 900000
                  | _ \<Rightarrow> now (snd (authenticate e w)) + 900000)
             | _ \<Rightarrow> now (snd (authenticate e w)) + 900000)"
    unfolding after kept clock now1 stored by simp
qed

theorem stored_expiry_witness:
  "tokenPayload (snd (authenticate env_example (initial 0)))
     = Some \<lparr>token = ''h.fresh.s'', refresh_token = ''r1'', expiresAt = 10000000\<rparr>
   \<and> tokenPayload (snd (authenticate
        (env_example\<lparr>login_replies := (\<lambda>k. (20, Response 200 ''OK'' (tokens ''opaque'' ''r1'')))\<rparr>)
        (initial 0)))
     = Some \<lparr>token = ''opaque'', refresh_token = ''r1'', expiresAt = 900020\<rparr>"
  using stored_expiry [of env_example "initial 0" "''h.fresh.s''"]
    stored_expiry [of
      "env_example\<lparr>login_replies := (\<lambda>k. (20, Response 200 ''OK'' (tokens ''opaque'' ''r1'')))\<rparr>"
      "initial 0" "''opaque''"]
  by (simp add: scenario_defs auth_defs)

end
